theory Spec2Isabelle
  imports Complex_Main "HOL-Library.Sublist" "HOL-Library.Signed_Division" "HOL-Library.Log_Nat"
begin

section \<open>JavaScript values\<close>

text \<open>
  The transaction hook receives raw errors of type \<open>any\<close>: whatever a wallet, a provider
  or a contract call throws. They are modelled as a small universe of JavaScript values.
  An object is a list of property bindings (the first binding of a name is the one read).
  Numbers are the integers (error codes); strings are ASCII character lists.
\<close>

datatype jsval =
    JUndefined
  | JNull
  | JBool bool
  | JNum int
  | JStr string
  | JObj "(string \<times> jsval) list"

text \<open>\<open>v?.k\<close>: optional chaining. Reading a property of \<open>undefined\<close> or \<open>null\<close> gives
  \<open>undefined\<close>; a primitive has none of the properties read here
  (\<open>error\<close>, \<open>code\<close>, \<open>data\<close>, \<open>message\<close>).\<close>

fun opt_get :: "jsval \<Rightarrow> string \<Rightarrow> jsval" where
  "opt_get (JObj ps) k = (case map_of ps k of Some v \<Rightarrow> v | None \<Rightarrow> JUndefined)"
| "opt_get _ k = JUndefined"

text \<open>\<open>a ?? b\<close>: the right operand is taken only when the left one is \<open>null\<close> or
  \<open>undefined\<close>.\<close>

fun nullish :: "jsval \<Rightarrow> bool" where
  "nullish JUndefined = True"
| "nullish JNull = True"
| "nullish _ = False"

definition coalesce :: "jsval \<Rightarrow> jsval \<Rightarrow> jsval" where
  "coalesce a b = (if nullish a then b else a)"

text \<open>Truthiness, as tested by \<open>&&\<close>, \<open>||\<close>, \<open>!\<close> and \<open>if\<close>.\<close>

fun truthy :: "jsval \<Rightarrow> bool" where
  "truthy JUndefined = False"
| "truthy JNull = False"
| "truthy (JBool b) = b"
| "truthy (JNum n) = (n \<noteq> 0)"
| "truthy (JStr s) = (s \<noteq> [])"
| "truthy (JObj ps) = True"

subsection \<open>Strings\<close>

definition toLowerChar :: "char \<Rightarrow> char" where
  "toLowerChar c =
     (case map_of (zip ''ABCDEFGHIJKLMNOPQRSTUVWXYZ'' ''abcdefghijklmnopqrstuvwxyz'') c of
        Some l \<Rightarrow> l
      | None \<Rightarrow> c)"

definition toLowerCase :: "string \<Rightarrow> string" where
  "toLowerCase s = map toLowerChar s"

text \<open>\<open>s.includes(p)\<close>: \<open>p\<close> occurs in \<open>s\<close> as a contiguous block.\<close>

definition str_includes :: "string \<Rightarrow> string \<Rightarrow> bool" where
  "str_includes s p = sublist p s"

text \<open>The value thrown when \<open>toLowerCase\<close> is called on a value that is not a string.\<close>

definition TypeError_toLowerCase :: jsval where
  "TypeError_toLowerCase =
     JObj [(''name'', JStr ''TypeError''),
           (''message'', JStr ''errorMessage.toLowerCase is not a function'')]"

section \<open>Error classification\<close>

datatype TransactionErrorReason =
    NotEnoughFunds
  | UserDenied
  | NetworkChanged
  | RpcError
  | TradeSlippage

datatype TransactionErrorStage = GasEstimate | Wallet | Reverted

record pattern =
  p_message :: "string option"
  p_code :: "jsval option"
  p_name :: "string option"

definition msg_pattern :: "string \<Rightarrow> pattern" where
  "msg_pattern m = \<lparr>p_message = Some m, p_code = None, p_name = None\<rparr>"

definition code_pattern :: "jsval \<Rightarrow> pattern" where
  "code_pattern c = \<lparr>p_message = None, p_code = Some c, p_name = None\<rparr>"

definition name_pattern :: "string \<Rightarrow> pattern" where
  "name_pattern n = \<lparr>p_message = None, p_code = None, p_name = Some n\<rparr>"

text \<open>The table, in the order of the object literal: \<open>Object.entries\<close> enumerates string
  keys in insertion order.\<close>

definition TX_ERROR_PATTERNS :: "(TransactionErrorReason \<times> pattern list) list" where
  "TX_ERROR_PATTERNS =
     [(TradeSlippage, [name_pattern ''TotalCostOutsideOfSpecifiedBounds'']),
      (UserDenied,
         [msg_pattern ''User denied transaction signature'',
          msg_pattern ''User rejected transaction'',
          msg_pattern ''Cannot set properties of undefined (setting 'loadingDefaults')'',
          code_pattern (JStr ''ACTION_REJECTED''),
          code_pattern (JNum 4001)]),
      (NotEnoughFunds,
         [msg_pattern ''Not enough funds for gas'',
          msg_pattern ''Failed to execute call with revert code InsufficientGasFunds'']),
      (NetworkChanged, [msg_pattern ''Underlying network changed'']),
      (RpcError,
         [code_pattern (JNum (- 32005)),
          msg_pattern ''Non-200 status code'',
          msg_pattern ''Request limit exceeded'',
          msg_pattern ''Internal json-rpc error'',
          msg_pattern ''Response has no error or result'',
          msg_pattern ''We can't execute this request'',
          msg_pattern ''Couldn't connect to the network''])]"

record TransactionError =
  err_code :: jsval
  err_message :: jsval
  err_data :: jsval
  err_description :: "string option"
  err_reason :: "TransactionErrorReason option"

text \<open>\<open>matchCode\<close>: \<open>pattern.code && errorCode === pattern.code\<close>. Every code of the
  table is truthy, and \<open>===\<close> on numbers and strings is equality of values.\<close>

definition matchCode :: "pattern \<Rightarrow> jsval \<Rightarrow> bool" where
  "matchCode p errorCode =
     (case p_code p of None \<Rightarrow> False | Some c \<Rightarrow> truthy c \<and> errorCode = c)"

text \<open>\<open>matchMessage\<close>: \<open>pattern.message && errorMessage &&
  errorMessage.toLowerCase().includes(pattern.message.toLowerCase())\<close>. A truthy message
  that is not a string has no \<open>toLowerCase\<close> method: the call throws a TypeError.\<close>

definition matchMessage :: "pattern \<Rightarrow> jsval \<Rightarrow> jsval + bool" where
  "matchMessage p errorMessage =
     (case p_message p of
        None \<Rightarrow> Inr False
      | Some m \<Rightarrow>
          if m = [] then Inr False
          else if \<not> truthy errorMessage then Inr False
          else (case errorMessage of
                  JStr s \<Rightarrow> Inr (str_includes (toLowerCase s) (toLowerCase m))
                | _ \<Rightarrow> Inl TypeError_toLowerCase))"

text \<open>\<open>matchName\<close>: \<open>pattern.name && errorDescription &&
  errorDescription.name.toLowerCase().includes(pattern.name.toLowerCase())\<close>.\<close>

definition matchName :: "pattern \<Rightarrow> string option \<Rightarrow> bool" where
  "matchName p errorDescription =
     (case p_name p of
        None \<Rightarrow> False
      | Some n \<Rightarrow>
          n \<noteq> [] \<and>
          (case errorDescription of
             None \<Rightarrow> False
           | Some d \<Rightarrow> str_includes (toLowerCase d) (toLowerCase n)))"

text \<open>One pattern: the three constants are computed in turn, then tested with \<open>||\<close>.\<close>

definition match_pattern :: "pattern \<Rightarrow> jsval \<Rightarrow> jsval \<Rightarrow> string option \<Rightarrow> jsval + bool" where
  "match_pattern p errorCode errorMessage errorDescription =
     (case matchMessage p errorMessage of
        Inl e \<Rightarrow> Inl e
      | Inr mm \<Rightarrow> Inr (matchCode p errorCode \<or> mm \<or> matchName p errorDescription))"

text \<open>The inner loop over the patterns of one reason: \<open>True\<close> at the first match.\<close>

fun match_patterns :: "pattern list \<Rightarrow> jsval \<Rightarrow> jsval \<Rightarrow> string option \<Rightarrow> jsval + bool" where
  "match_patterns [] c m d = Inr False"
| "match_patterns (p # ps) c m d =
     (case match_pattern p c m d of
        Inl e \<Rightarrow> Inl e
      | Inr True \<Rightarrow> Inr True
      | Inr False \<Rightarrow> match_patterns ps c m d)"

text \<open>The outer loop over the reasons of the table: the reason of the first match.\<close>

fun match_table ::
  "(TransactionErrorReason \<times> pattern list) list \<Rightarrow> jsval \<Rightarrow> jsval \<Rightarrow> string option
     \<Rightarrow> jsval + TransactionErrorReason option" where
  "match_table [] c m d = Inr None"
| "match_table ((reason, patterns) # rest) c m d =
     (case match_patterns patterns c m d of
        Inl e \<Rightarrow> Inl e
      | Inr True \<Rightarrow> Inr (Some reason)
      | Inr False \<Rightarrow> match_table rest c m d)"

text \<open>The contract, as far as classification uses it: \<open>interface.parseError(data)\<close>
  gives the description of a custom error, of which only the name is read, or throws
  (\<open>None\<close>).\<close>

type_synonym parseError = "jsval \<Rightarrow> string option"

text \<open>\<open>rawError?.error?.error ?? rawError?.error ?? rawError\<close>\<close>

definition unwrap_error :: "jsval \<Rightarrow> jsval" where
  "unwrap_error rawError =
     coalesce (opt_get (opt_get rawError ''error'') ''error'')
       (coalesce (opt_get rawError ''error'') rawError)"

text \<open>\<open>error?.data?.data ?? error?.data\<close>\<close>

definition error_data :: "jsval \<Rightarrow> jsval" where
  "error_data error = coalesce (opt_get (opt_get error ''data'') ''data'') (opt_get error ''data'')"

text \<open>The description is decoded when the data is truthy and a contract is there; a
  failure of the decoder is swallowed.\<close>

definition decode_error :: "jsval \<Rightarrow> parseError option \<Rightarrow> string option" where
  "decode_error errorData contract =
     (if truthy errorData then (case contract of None \<Rightarrow> None | Some parse \<Rightarrow> parse errorData)
      else None)"

definition extractError :: "jsval \<Rightarrow> parseError option \<Rightarrow> jsval + TransactionError" where
  "extractError rawError contract =
     (let error = unwrap_error rawError;
          errorCode = opt_get error ''code'';
          errorData = error_data error;
          errorDescription = decode_error errorData contract;
          errorMessage = opt_get error ''message''
      in case match_table TX_ERROR_PATTERNS errorCode errorMessage errorDescription of
           Inl e \<Rightarrow> Inl e
         | Inr reason \<Rightarrow>
             Inr \<lparr>err_code = errorCode, err_message = errorMessage, err_data = errorData,
                  err_description = errorDescription, err_reason = reason\<rparr>)"

section \<open>Data of the transaction hook\<close>

record PopulatedTransaction =
  tx_to :: string
  tx_data :: string
  tx_gasLimit :: "int option"

record TransactionResponse =
  hash :: string

text \<open>\<open>status\<close> is optional in a receipt; \<open>TransactionStatus.Failure\<close> is 0.\<close>

record TransactionReceipt =
  transactionHash :: string
  status :: "int option"

datatype AppNetwork = Arbitrum | Optimism | Ethereum

text \<open>What \<open>getNetworkConfig(network)\<close> returns, as far as the hook reads it. The
  function itself is not part of the source file, so the configuration is a parameter. \<open>minGas\<close>
  and \<open>maxGas\<close> are BigNumbers (unbounded integers); \<open>gasBuffer\<close> is a JavaScript
  number (an IEEE double, finite), given by its exact value.\<close>

record NetworkConfig =
  displayName :: string
  minGas :: int
  maxGas :: int
  gasBuffer :: rat

datatype toast_variant = VSuccess | VError | VWarning

text \<open>Every call that leaves the hook is recorded, in order. Console output and the
  link of a notification are not recorded.\<close>

datatype event =
    EstimateGas PopulatedTransaction
  | ContractEstimateGas string "jsval list"
  | SendTransaction PopulatedTransaction
  | ContractCall string "jsval list" int
  | GetTransactionReceipt string
  | CreatePendingToast string
  | UpdatePendingToast string nat
  | UpdateToast string toast_variant string
  | CloseToast string
  | PostTransactionError TransactionError TransactionErrorStage
  | PostTransactionSuccess TransactionReceipt
  | OnErrorCall TransactionError jsval "TransactionReceipt option"
  | OnCompleteCall TransactionReceipt

text \<open>
  The collaborators, as functions. A call gives its result (\<open>Inr\<close>) or the value it
  throws, or its promise is rejected with (\<open>Inl\<close>). The answer of
  \<open>getTransactionReceipt\<close> changes with time: it is a function of the hash and of the
  number of lookups made before. \<open>contract.connect(signer)\<close> is the contract itself.
\<close>

record provider =
  prov_estimateGas :: "PopulatedTransaction \<Rightarrow> jsval + int"
  prov_getTransactionReceipt :: "string \<Rightarrow> nat \<Rightarrow> jsval + TransactionReceipt option"

record signer =
  sendTransaction :: "PopulatedTransaction \<Rightarrow> jsval + TransactionResponse"

record contract =
  c_estimateGas :: "string \<Rightarrow> jsval list \<Rightarrow> jsval + int"
  c_call :: "string \<Rightarrow> jsval list \<Rightarrow> int \<Rightarrow> jsval + TransactionResponse"
  c_parseError :: parseError

section \<open>Gas estimation\<close>

subsection \<open>JavaScript numbers\<close>

text \<open>
  A JavaScript number is an IEEE 754 double, here a rational number. The product of two
  numbers is their exact product rounded to the nearest double, ties to the even
  mantissa: with \<open>e\<close> the binary exponent of the exact product \<open>q\<close> (\<open>pow2 e \<le> |q| < pow2 (e + 1)\<close>),
  the doubles around it are the multiples of \<open>pow2 (e - 52)\<close> (of \<open>pow2 (- 1074)\<close> for a
  subnormal).
  A product beyond the largest double is left at its rounded value instead of
  \<open>Infinity\<close>: BigNumber refuses both as an overflow.
\<close>

definition pow2 :: "int \<Rightarrow> rat" where
  "pow2 k = (if 0 \<le> k then 2 ^ nat k else 1 / 2 ^ nat (- k))"

definition round_half_even :: "rat \<Rightarrow> int" where
  "round_half_even q =
     (let f = \<lfloor>q\<rfloor>; r = q - of_int f
      in if r < 1 / 2 then f else if 1 / 2 < r then f + 1 else if even f then f else f + 1)"

text \<open>The binary exponent of a positive rational: the bit lengths of numerator and
  denominator give it up to one, and a comparison decides.\<close>

definition fl_exponent :: "rat \<Rightarrow> int" where
  "fl_exponent q =
     (case quotient_of q of
        (a, b) \<Rightarrow> (let d = bitlen a - bitlen b in if pow2 d \<le> q then d else d - 1))"

definition fl_round :: "rat \<Rightarrow> rat" where
  "fl_round q =
     (if q = 0 then 0
      else (let ulp = pow2 (max (fl_exponent \<bar>q\<bar> - 52) (- 1074))
            in sgn q * of_int (round_half_even (\<bar>q\<bar> / ulp)) * ulp))"

text \<open>\<open>x * y\<close> on numbers.\<close>

definition js_mul :: "rat \<Rightarrow> rat \<Rightarrow> rat" where
  "js_mul x y = fl_round (x * y)"

subsection \<open>BigNumber\<close>

text \<open>
  The operations of the ethers BigNumber used by the estimator. \<open>BigNumber.from\<close> of a
  JavaScript number throws a numeric fault when the number has a fractional part
  (underflow) or lies outside the safe integers (overflow). \<open>mul\<close> is exact; \<open>div\<close>
  truncates towards zero.
\<close>

definition MAX_SAFE :: int where
  "MAX_SAFE = 9007199254740991"

definition NUMERIC_FAULT :: "string \<Rightarrow> jsval" where
  "NUMERIC_FAULT fault =
     JObj [(''code'', JStr ''NUMERIC_FAULT''), (''fault'', JStr fault),
           (''message'', JStr fault)]"

definition BigNumber_from :: "rat \<Rightarrow> jsval + int" where
  "BigNumber_from v =
     (if v \<noteq> of_int \<lfloor>v\<rfloor> then Inl (NUMERIC_FAULT ''underflow'')
      else if v \<ge> of_int MAX_SAFE \<or> v \<le> - of_int MAX_SAFE then Inl (NUMERIC_FAULT ''overflow'')
      else Inr \<lfloor>v\<rfloor>)"

definition BigNumber_mul :: "int \<Rightarrow> rat \<Rightarrow> jsval + int" where
  "BigNumber_mul a other = (case BigNumber_from other of Inl e \<Rightarrow> Inl e | Inr k \<Rightarrow> Inr (a * k))"

definition BigNumber_div :: "int \<Rightarrow> int \<Rightarrow> int" where
  "BigNumber_div a b = a sdiv b"

subsection \<open>The two estimators\<close>

text \<open>Each returns the gas limit, or the value thrown, and the calls it made.\<close>

definition getRawTxGasLimit ::
  "NetworkConfig \<Rightarrow> provider \<Rightarrow> PopulatedTransaction \<Rightarrow> (jsval + int) \<times> event list" where
  "getRawTxGasLimit config prov tx =
     (let (estimated, evs) =
            (case tx_gasLimit tx of
               Some g \<Rightarrow> (Inr g, [])
             | None \<Rightarrow>
                 (case prov_estimateGas prov tx of
                    Inl e \<Rightarrow> (Inl e, [EstimateGas tx])
                  | Inr estimate \<Rightarrow>
                      (case BigNumber_mul estimate (js_mul 10000 (max 1 (gasBuffer config))) of
                         Inl e \<Rightarrow> (Inl e, [EstimateGas tx])
                       | Inr scaled \<Rightarrow> (Inr (BigNumber_div scaled 10000), [EstimateGas tx]))))
      in case estimated of
           Inl e \<Rightarrow> (Inl e, evs)
         | Inr gasLimit \<Rightarrow>
             if gasLimit < minGas config then (Inr (minGas config), evs)
             else if gasLimit > maxGas config then (Inr (maxGas config), evs)
             else (Inr gasLimit, evs))"

definition getContractTxGasLimit ::
  "NetworkConfig \<Rightarrow> contract \<Rightarrow> string \<Rightarrow> jsval list \<Rightarrow> int option
     \<Rightarrow> (jsval + int) \<times> event list" where
  "getContractTxGasLimit config contract method params options_gasLimit =
     (let (estimated, evs) =
            (case options_gasLimit of
               Some g \<Rightarrow> (Inr g, [])
             | None \<Rightarrow>
                 (case c_estimateGas contract method params of
                    Inl e \<Rightarrow> (Inl e, [ContractEstimateGas method params])
                  | Inr estimate \<Rightarrow>
                      (case BigNumber_mul estimate (js_mul 10000 (max 1 (gasBuffer config))) of
                         Inl e \<Rightarrow> (Inl e, [ContractEstimateGas method params])
                       | Inr scaled \<Rightarrow>
                           (Inr (BigNumber_div scaled 10000),
                            [ContractEstimateGas method params]))))
      in case estimated of
           Inl e \<Rightarrow> (Inl e, evs)
         | Inr gasLimit \<Rightarrow>
             if gasLimit < minGas config then (Inr (minGas config), evs)
             else if gasLimit > maxGas config then (Inr (maxGas config), evs)
             else (Inr gasLimit, evs))"

section \<open>Reporting a failure\<close>

text \<open>A caller's callback returns normally (\<open>None\<close>) or throws a value.\<close>

type_synonym TransactionErrorHandler =
  "TransactionError \<Rightarrow> jsval \<Rightarrow> TransactionReceipt option \<Rightarrow> jsval option"

text \<open>The options of \<open>handleError\<close>. The network is present through its configuration;
  \<open>txName\<close>, \<open>signer\<close> and \<open>metadata\<close> are only handed on to the error report and are
  left out.\<close>

record TransactionErrorOptions =
  o_config :: NetworkConfig
  o_stage :: TransactionErrorStage
  o_toastId :: string
  o_receipt :: "TransactionReceipt option"
  o_handler :: "TransactionErrorHandler option"
  o_contract :: "contract option"

definition formatErrorReason ::
  "TransactionErrorReason \<Rightarrow> TransactionErrorOptions \<Rightarrow> string option" where
  "formatErrorReason errorReason options =
     (case errorReason of
        TradeSlippage \<Rightarrow> Some ''The quoted option price is now out of bounds, try again''
      | NetworkChanged \<Rightarrow> Some ''Your network unexpectedly changed, try again''
      | RpcError \<Rightarrow> Some ''An RPC error occurred, try again''
      | NotEnoughFunds \<Rightarrow>
          Some (''Your account on '' @ displayName (o_config options)
                @ '' doesn't have enough gas'')
      | UserDenied \<Rightarrow> None)"

text \<open>The message shown for a classified error: \<open>error.reason ? formatErrorReason(...) :
  stage === Reverted ? 'Transaction reverted' : 'Failed to send transaction'\<close>.\<close>

definition errorReasonMessage :: "TransactionError \<Rightarrow> TransactionErrorOptions \<Rightarrow> string option" where
  "errorReasonMessage error options =
     (case err_reason error of
        Some reason \<Rightarrow> formatErrorReason reason options
      | None \<Rightarrow>
          if o_stage options = Reverted then Some ''Transaction reverted''
          else Some ''Failed to send transaction'')"

text \<open>\<open>handleError\<close> returns normally or throws (the classifier's TypeError, or what the
  caller's handler throws), and the calls it made.\<close>

definition handleError :: "jsval \<Rightarrow> TransactionErrorOptions \<Rightarrow> (jsval + unit) \<times> event list" where
  "handleError rawError options =
     (case extractError rawError (map_option c_parseError (o_contract options)) of
        Inl e \<Rightarrow> (Inl e, [])
      | Inr error \<Rightarrow>
          (case errorReasonMessage error options of
             None \<Rightarrow> (Inr (), [CloseToast (o_toastId options)])
           | Some message \<Rightarrow>
               if message = [] then (Inr (), [CloseToast (o_toastId options)])
               else
                 (let evs = [PostTransactionError error (o_stage options),
                             UpdateToast (o_toastId options) VError message]
                  in case o_handler options of
                       None \<Rightarrow> (Inr (), evs)
                     | Some handler \<Rightarrow>
                         (case handler error rawError (o_receipt options) of
                            None \<Rightarrow>
                              (Inr (), evs @ [OnErrorCall error rawError (o_receipt options)])
                          | Some e \<Rightarrow>
                              (Inl e, evs @ [OnErrorCall error rawError (o_receipt options)])))))"

definition getTimeout :: "AppNetwork \<Rightarrow> nat" where
  "getTimeout network =
     (case network of Arbitrum \<Rightarrow> 10 * 1000 | Optimism \<Rightarrow> 10 * 1000 | Ethereum \<Rightarrow> 60 * 1000)"

definition POLL_INTERVAL :: nat where
  "POLL_INTERVAL = 250"

section \<open>Polling for the receipt\<close>

text \<open>
  The promise around \<open>pollReceipt\<close> is resolved with a receipt, resolved with \<open>null\<close>, or
  never settled: a lookup that throws rejects the promise of that run of \<open>pollReceipt\<close>,
  which nobody awaits, and \<open>resolve\<close> is never called.

  \<open>lookup i\<close> is what the \<open>i\<close>-th call (from 0) of \<open>provider.getTransactionReceipt\<close>
  gives; \<open>n\<close> is the counter of the source. The timer between two runs is not modelled.
\<close>

datatype poll_result = Resolved "TransactionReceipt option" | Unsettled jsval

function pollReceipt ::
  "(nat \<Rightarrow> jsval + TransactionReceipt option) \<Rightarrow> string \<Rightarrow> nat \<Rightarrow> nat
     \<Rightarrow> poll_result \<times> event list" where
  "pollReceipt lookup h n i =
     (case lookup i of
        Inl e \<Rightarrow> (Unsettled e, [GetTransactionReceipt h])
      | Inr (Some receipt) \<Rightarrow> (Resolved (Some receipt), [GetTransactionReceipt h])
      | Inr None \<Rightarrow>
          if n < 100 then
            (case pollReceipt lookup h (n + 1) (i + 1) of
               (r, evs) \<Rightarrow> (r, GetTransactionReceipt h # evs))
          else (Resolved None, [GetTransactionReceipt h]))"
  by pat_completeness auto
termination
  by (relation "measure (\<lambda>(lookup, h, n, i). 100 - n)") auto

section \<open>The entry point\<close>

text \<open>
  The callback returned by \<open>useTransaction(network)\<close>. Its surroundings are gathered in
  an environment: the resolved network and its configuration, the provider of the
  network, the account and signer of the wallet, and the identifier that
  \<open>createPendingToast\<close> returns.
\<close>

record env =
  env_network :: AppNetwork
  env_config :: NetworkConfig
  env_provider :: provider
  env_account :: "string option"
  env_signer :: "signer option"
  env_toastId :: string

record TransactionOptions =
  onComplete :: "(TransactionReceipt \<Rightarrow> jsval option) option"
  onError :: "TransactionErrorHandler option"

text \<open>
  The three shapes of the request. A populated transaction is an object of the caller:
  the request holds its address in a store of such objects, so that an assignment to a
  field of it is seen by the caller. An address without an object stands for a \<open>tx\<close>
  that is \<open>undefined\<close>. The optional \<open>options.gasLimit\<close> of a method call is the last
  argument of \<open>MethodCall\<close>.
\<close>

type_synonym heap = "nat \<Rightarrow> PopulatedTransaction option"

datatype Transaction =
    Populated nat
  | WithTx nat "contract option"
  | MethodCall contract string "jsval list" "int option"

text \<open>An invocation returns a receipt or \<open>null\<close>, throws (the promise is rejected), or
  never settles.\<close>

datatype outcome = Returned "TransactionReceipt option" | Thrown jsval | NeverSettles

definition Error_reverted :: jsval where
  "Error_reverted = JObj [(''message'', JStr ''Transaction reverted'')]"

definition TypeError_undefined_tx :: jsval where
  "TypeError_undefined_tx =
     JObj [(''name'', JStr ''TypeError''),
           (''message'', JStr ''Cannot read properties of undefined (reading 'gasLimit')'')]"

fun digit :: "nat \<Rightarrow> char" where
  "digit n = (''0123456789'' ! (n mod 10))"

function decimal :: "nat \<Rightarrow> string" where
  "decimal n = (if n < 10 then [digit n] else decimal (n div 10) @ [digit n])"
  by pat_completeness auto
termination
  by (relation "measure (\<lambda>n. n)") auto

text \<open>\<open>{...successOrErrorOptions, contract, receipt, stage}\<close>\<close>

definition errorOptions ::
  "env \<Rightarrow> TransactionOptions \<Rightarrow> contract option \<Rightarrow> TransactionReceipt option
     \<Rightarrow> TransactionErrorStage \<Rightarrow> TransactionErrorOptions" where
  "errorOptions env options contract receipt stage =
     \<lparr>o_config = env_config env, o_stage = stage, o_toastId = env_toastId env,
      o_receipt = receipt, o_handler = onError options, o_contract = contract\<rparr>"

text \<open>\<open>handleError(...); return null\<close>, the body of every \<open>catch\<close> block and of the branch
  of a reverted receipt.\<close>

definition returnNullAfter :: "(jsval + unit) \<times> event list \<Rightarrow> outcome \<times> event list" where
  "returnNullAfter r =
     (case r of (Inl e, evs) \<Rightarrow> (Thrown e, evs) | (Inr u, evs) \<Rightarrow> (Returned None, evs))"

text \<open>Everything after the submission: from \<open>getTimeout(network)\<close> to the end.\<close>

definition afterSubmit ::
  "env \<Rightarrow> TransactionOptions \<Rightarrow> contract option \<Rightarrow> TransactionResponse
     \<Rightarrow> outcome \<times> event list" where
  "afterSubmit env options contract response =
     (let toastId = env_toastId env;
          transactionTimeout = getTimeout (env_network env);
          autoClose = transactionTimeout + POLL_INTERVAL;
          pending = UpdatePendingToast toastId autoClose
      in case pollReceipt (prov_getTransactionReceipt (env_provider env) (hash response))
                (hash response) 0 0 of
           (Unsettled e, pevs) \<Rightarrow> (NeverSettles, pending # pevs)
         | (Resolved None, pevs) \<Rightarrow>
             (Returned None,
              pending # pevs @
              [UpdateToast toastId VWarning
                 (''Your transaction took longer than '' @ decimal (transactionTimeout div 1000)
                  @ '' seconds, click to view on etherscan'')])
         | (Resolved (Some receipt), pevs) \<Rightarrow>
             if status receipt = Some 0 then
               (case returnNullAfter
                       (handleError Error_reverted
                          (errorOptions env options contract (Some receipt) Reverted)) of
                  (out, hevs) \<Rightarrow> (out, pending # pevs @ hevs))
             else
               (let success = [PostTransactionSuccess receipt,
                               UpdateToast toastId VSuccess ''Your transaction was successful'']
                in case onComplete options of
                     None \<Rightarrow> (Returned (Some receipt), pending # pevs @ success)
                   | Some callback \<Rightarrow>
                       (case callback receipt of
                          Some e \<Rightarrow> (Thrown e, pending # pevs @ [OnCompleteCall receipt])
                        | None \<Rightarrow>
                            (Returned (Some receipt),
                             pending # pevs @ OnCompleteCall receipt # success))))"

text \<open>The branch of a request with a \<open>method\<close> field, after the notification is created.\<close>

definition methodBranch ::
  "env \<Rightarrow> TransactionOptions \<Rightarrow> contract \<Rightarrow> string \<Rightarrow> jsval list \<Rightarrow> int option
     \<Rightarrow> outcome \<times> event list" where
  "methodBranch env options contract method params options_gasLimit =
     (case getContractTxGasLimit (env_config env) contract method params options_gasLimit of
        (Inl rawError, gevs) \<Rightarrow>
          (case returnNullAfter
                  (handleError rawError
                     (errorOptions env options (Some contract) None GasEstimate)) of
             (out, hevs) \<Rightarrow> (out, gevs @ hevs))
      | (Inr gasLimit, gevs) \<Rightarrow>
          (case c_call contract method params gasLimit of
             Inl rawError \<Rightarrow>
               (case returnNullAfter
                       (handleError rawError
                          (errorOptions env options (Some contract) None Wallet)) of
                  (out, hevs) \<Rightarrow> (out, gevs @ ContractCall method params gasLimit # hevs))
           | Inr response \<Rightarrow>
               (case afterSubmit env options (Some contract) response of
                  (out, aevs) \<Rightarrow> (out, gevs @ ContractCall method params gasLimit # aevs))))"

text \<open>The other branch, once \<open>tx\<close> (the object at address \<open>a\<close>) and \<open>contract\<close> are
  bound. The computed limit is assigned to the \<open>gasLimit\<close> field of that object.\<close>

definition rawBranch ::
  "env \<Rightarrow> TransactionOptions \<Rightarrow> signer \<Rightarrow> nat \<Rightarrow> contract option \<Rightarrow> heap
     \<Rightarrow> outcome \<times> event list \<times> heap" where
  "rawBranch env options wsigner a contract heap =
     (case heap a of
        None \<Rightarrow>
          (case returnNullAfter
                  (handleError TypeError_undefined_tx
                     (errorOptions env options contract None GasEstimate)) of
             (out, hevs) \<Rightarrow> (out, hevs, heap))
      | Some tx \<Rightarrow>
          (case getRawTxGasLimit (env_config env) (env_provider env) tx of
             (Inl rawError, gevs) \<Rightarrow>
               (case returnNullAfter
                       (handleError rawError
                          (errorOptions env options contract None GasEstimate)) of
                  (out, hevs) \<Rightarrow> (out, gevs @ hevs, heap))
           | (Inr gasLimit, gevs) \<Rightarrow>
               (let tx' = tx\<lparr>tx_gasLimit := Some gasLimit\<rparr>;
                    heap' = heap(a \<mapsto> tx')
                in case sendTransaction wsigner tx' of
                     Inl rawError \<Rightarrow>
                       (case returnNullAfter
                               (handleError rawError
                                  (errorOptions env options contract None Wallet)) of
                          (out, hevs) \<Rightarrow> (out, gevs @ SendTransaction tx' # hevs, heap'))
                   | Inr response \<Rightarrow>
                       (case afterSubmit env options contract response of
                          (out, aevs) \<Rightarrow> (out, gevs @ SendTransaction tx' # aevs, heap')))))"

definition useTransaction ::
  "env \<Rightarrow> Transaction \<Rightarrow> TransactionOptions \<Rightarrow> heap \<Rightarrow> outcome \<times> event list \<times> heap" where
  "useTransaction env txInputs options heap =
     (case env_signer env of
        None \<Rightarrow> (Returned None, [], heap)
      | Some wsigner \<Rightarrow>
          (case env_account env of
             None \<Rightarrow> (Returned None, [], heap)
           | Some account \<Rightarrow>
               if account = [] then (Returned None, [], heap)
               else
                 (let created = CreatePendingToast (env_toastId env)
                  in case txInputs of
                       MethodCall contract method params options_gasLimit \<Rightarrow>
                         (case methodBranch env options contract method params
                                 options_gasLimit of
                            (out, evs) \<Rightarrow> (out, created # evs, heap))
                     | WithTx a contract \<Rightarrow>
                         (case rawBranch env options wsigner a contract heap of
                            (out, evs, heap') \<Rightarrow> (out, created # evs, heap'))
                     | Populated a \<Rightarrow>
                         (case rawBranch env options wsigner a None heap of
                            (out, evs, heap') \<Rightarrow> (out, created # evs, heap')))))"

section \<open>Reference notions\<close>

text \<open>Truncation of a rational number towards zero: scaling a gas estimate by the buffer
  without any rounding artifact gives the exact product, truncated.\<close>

definition rat_trunc :: "rat \<Rightarrow> int" where
  "rat_trunc q = (if 0 \<le> q then \<lfloor>q\<rfloor> else \<lceil>q\<rceil>)"

text \<open>
  The rules of the table, read on their own: a pattern matches an error when the code
  equals its code, or the message is a string that contains its message, or the decoded
  custom error has a name that contains its name, both without regard to case. The first
  matching reason is the reason of the first entry of the table, in its order, one of
  whose patterns matches.
\<close>

definition pattern_matches :: "pattern \<Rightarrow> jsval \<Rightarrow> jsval \<Rightarrow> string option \<Rightarrow> bool" where
  "pattern_matches p errorCode errorMessage errorDescription =
     ((case p_code p of Some c \<Rightarrow> errorCode = c | None \<Rightarrow> False)
      \<or> (case p_message p of
            Some m \<Rightarrow>
              (case errorMessage of
                 JStr s \<Rightarrow> str_includes (toLowerCase s) (toLowerCase m)
               | _ \<Rightarrow> False)
          | None \<Rightarrow> False)
      \<or> (case p_name p of
            Some n \<Rightarrow>
              (case errorDescription of
                 Some d \<Rightarrow> str_includes (toLowerCase d) (toLowerCase n)
               | None \<Rightarrow> False)
          | None \<Rightarrow> False))"

definition first_matching_reason ::
  "jsval \<Rightarrow> jsval \<Rightarrow> string option \<Rightarrow> TransactionErrorReason option" where
  "first_matching_reason errorCode errorMessage errorDescription =
     map_option fst
       (find (\<lambda>(reason, patterns).
                list_ex (\<lambda>p. pattern_matches p errorCode errorMessage errorDescription) patterns)
          TX_ERROR_PATTERNS)"

text \<open>The patterns of the table have truthy codes and non-empty messages and names, so
  that the guards \<open>pattern.code &&\<close>, \<open>pattern.message &&\<close> and \<open>pattern.name &&\<close> only
  test which fields a pattern has.\<close>

definition plain_pattern :: "pattern \<Rightarrow> bool" where
  "plain_pattern p \<longleftrightarrow>
     (case p_code p of Some c \<Rightarrow> truthy c | None \<Rightarrow> True)
     \<and> p_message p \<noteq> Some [] \<and> p_name p \<noteq> Some []"

text \<open>Reading the record of calls: the notifications created, the final operations on a
  notification (closing it, or updating it to a success, error or warning), the calls of
  the caller's error handler and the error reports, and the notification an event is
  about.\<close>

fun is_created :: "event \<Rightarrow> bool" where
  "is_created (CreatePendingToast t) = True"
| "is_created _ = False"

fun is_terminal :: "event \<Rightarrow> bool" where
  "is_terminal (CloseToast t) = True"
| "is_terminal (UpdateToast t v d) = True"
| "is_terminal _ = False"

fun is_handler_call :: "event \<Rightarrow> bool" where
  "is_handler_call (OnErrorCall e r rc) = True"
| "is_handler_call _ = False"

fun is_error_report :: "event \<Rightarrow> bool" where
  "is_error_report (PostTransactionError e s) = True"
| "is_error_report _ = False"

fun toast_of :: "event \<Rightarrow> string option" where
  "toast_of (CreatePendingToast t) = Some t"
| "toast_of (UpdatePendingToast t a) = Some t"
| "toast_of (UpdateToast t v d) = Some t"
| "toast_of (CloseToast t) = Some t"
| "toast_of _ = None"

definition created_count :: "event list \<Rightarrow> nat" where
  "created_count evs = length (filter is_created evs)"

definition terminal_count :: "event list \<Rightarrow> nat" where
  "terminal_count evs = length (filter is_terminal evs)"

definition handler_count :: "event list \<Rightarrow> nat" where
  "handler_count evs = length (filter is_handler_call evs)"

definition report_count :: "event list \<Rightarrow> nat" where
  "report_count evs = length (filter is_error_report evs)"

definition on_toast :: "string \<Rightarrow> event list \<Rightarrow> bool" where
  "on_toast tid evs = list_all (\<lambda>ev. toast_of ev = None \<or> toast_of ev = Some tid) evs"

text \<open>What a part of an invocation that runs after the notification is created owes to
  it: it creates no other one, touches only this one, and when the invocation returns it
  has closed it or updated it to a final state exactly once.\<close>

definition toast_discipline :: "string \<Rightarrow> outcome \<Rightarrow> event list \<Rightarrow> bool" where
  "toast_discipline tid out evs \<longleftrightarrow>
     created_count evs = 0
     \<and> (case out of Returned r \<Rightarrow> terminal_count evs = 1 | _ \<Rightarrow> True)
     \<and> on_toast tid evs"

section \<open>Example inputs\<close>

definition example_config :: NetworkConfig where
  "example_config =
     \<lparr>displayName = ''Optimism'', minGas = 21000, maxGas = 15000000, gasBuffer = 3 / 2\<rparr>"

text \<open>The same network with a buffer of 1.11: the number that the literal \<open>1.11\<close>
  denotes is the double nearest to \<open>111/100\<close>.\<close>

definition rounding_config :: NetworkConfig where
  "rounding_config = example_config\<lparr>gasBuffer := fl_round (111 / 100)\<rparr>"

definition example_tx :: PopulatedTransaction where
  "example_tx = \<lparr>tx_to = ''0xpool'', tx_data = ''0xa9059cbb'', tx_gasLimit = None\<rparr>"

definition example_receipt :: "string \<Rightarrow> TransactionReceipt" where
  "example_receipt h = \<lparr>transactionHash = h, status = Some 1\<rparr>"

text \<open>A provider whose estimate is \<open>e\<close> and which has the receipt at the first lookup; a
  contract whose estimate is \<open>e\<close>.\<close>

definition example_provider :: "int \<Rightarrow> provider" where
  "example_provider e =
     \<lparr>prov_estimateGas = (\<lambda>tx. Inr e),
      prov_getTransactionReceipt = (\<lambda>h i. Inr (Some (example_receipt h)))\<rparr>"

definition example_contract :: "int \<Rightarrow> contract" where
  "example_contract e =
     \<lparr>c_estimateGas = (\<lambda>method params. Inr e),
      c_call = (\<lambda>method params gas. Inr \<lparr>hash = ''0xabc''\<rparr>),
      c_parseError = (\<lambda>d. None)\<rparr>"

text \<open>A contract whose interface decodes any error data to the custom error
  \<open>TotalCostOutsideOfSpecifiedBounds\<close>.\<close>

definition slippage_contract :: contract where
  "slippage_contract =
     \<lparr>c_estimateGas = (\<lambda>method params. Inr 100000),
      c_call = (\<lambda>method params gas. Inr \<lparr>hash = ''0xabc''\<rparr>),
      c_parseError = (\<lambda>d. Some ''TotalCostOutsideOfSpecifiedBounds'')\<rparr>"

text \<open>Raw errors: a rejection by the user as a wallet reports it, an envelope around an
  error, a rate-limit error of a node that carries revert data, and a rejection that
  carries revert data.\<close>

definition user_rejected :: jsval where
  "user_rejected =
     JObj [(''code'', JStr ''UNKNOWN''),
           (''message'', JStr ''MetaMask Tx Signature: User Rejected Transaction.'')]"

definition wrap :: "jsval \<Rightarrow> jsval" where
  "wrap inner = JObj [(''message'', JStr ''processing response error''), (''error'', inner)]"

definition slippage_rpc_error :: jsval where
  "slippage_rpc_error =
     JObj [(''code'', JNum (- 32005)), (''message'', JStr ''Request limit exceeded''),
           (''data'', JStr ''0x1234'')]"

text \<open>Further raw errors: one per reason, one that two reasons match, one that none
  matches, and one whose message is a number.\<close>

definition funds_error :: jsval where
  "funds_error =
     JObj [(''error'',
            JObj [(''code'', JNum (- 32000)), (''message'', JStr ''not enough funds for gas'')])]"

definition network_changed_error :: jsval where
  "network_changed_error =
     JObj [(''code'', JStr ''NETWORK_ERROR''), (''message'', JStr ''underlying network changed'')]"

definition denied_rate_limit_error :: jsval where
  "denied_rate_limit_error =
     JObj [(''code'', JNum 4001), (''message'', JStr ''Request limit exceeded'')]"

definition unknown_error :: jsval where
  "unknown_error = JObj [(''code'', JNum 3), (''message'', JStr ''execution reverted'')]"

definition numeric_message_error :: jsval where
  "numeric_message_error = JObj [(''code'', JNum 4001), (''message'', JNum 5)]"

definition slippage_rejected_error :: jsval where
  "slippage_rejected_error =
     JObj [(''message'', JStr ''user rejected transaction''), (''data'', JStr ''0x1234'')]"

text \<open>Receipt lookups: never a receipt, the receipt at lookup \<open>k\<close> (from 0) only, and
  a lookup that fails.\<close>

definition lookup_never :: "nat \<Rightarrow> jsval + TransactionReceipt option" where
  "lookup_never i = Inr None"

definition lookup_at ::
  "nat \<Rightarrow> TransactionReceipt \<Rightarrow> nat \<Rightarrow> jsval + TransactionReceipt option" where
  "lookup_at k r i = (if i = k then Inr (Some r) else Inr None)"

definition network_error :: jsval where
  "network_error =
     JObj [(''code'', JStr ''NETWORK_ERROR''), (''message'', JStr ''could not detect network'')]"

definition lookup_failing :: "nat \<Rightarrow> jsval + TransactionReceipt option" where
  "lookup_failing i = Inl network_error"

definition failing_provider :: provider where
  "failing_provider =
     \<lparr>prov_estimateGas = (\<lambda>tx. Inr 100000),
      prov_getTransactionReceipt = (\<lambda>h. lookup_failing)\<rparr>"

definition never_provider :: provider where
  "never_provider =
     \<lparr>prov_estimateGas = (\<lambda>tx. Inr 100000),
      prov_getTransactionReceipt = (\<lambda>h. lookup_never)\<rparr>"

text \<open>Signers, a wallet with an account, callbacks of the caller, and a store with one
  populated transaction at address 0.\<close>

definition example_signer :: signer where
  "example_signer = \<lparr>sendTransaction = (\<lambda>tx. Inr \<lparr>hash = ''0xabc''\<rparr>)\<rparr>"

definition rejecting_signer :: signer where
  "rejecting_signer = \<lparr>sendTransaction = (\<lambda>tx. Inl user_rejected)\<rparr>"

definition example_env :: "provider \<Rightarrow> signer \<Rightarrow> env" where
  "example_env prov sg =
     \<lparr>env_network = Optimism, env_config = example_config, env_provider = prov,
      env_account = Some ''0xuser'', env_signer = Some sg, env_toastId = ''toast-1''\<rparr>"

definition user_denied :: jsval where
  "user_denied =
     JObj [(''code'', JNum 4001),
           (''message'', JStr ''MetaMask Tx Signature: User denied transaction signature.'')]"

definition denying_contract :: contract where
  "denying_contract =
     \<lparr>c_estimateGas = (\<lambda>method params. Inl user_denied),
      c_call = (\<lambda>method params gas. Inr \<lparr>hash = ''0xabc''\<rparr>),
      c_parseError = (\<lambda>d. None)\<rparr>"

definition silent_handler :: TransactionErrorHandler where
  "silent_handler error rawError receipt = None"

definition throwing_callback :: "TransactionReceipt \<Rightarrow> jsval option" where
  "throwing_callback receipt = Some (JStr ''callback failed'')"

definition example_heap :: heap where
  "example_heap = (\<lambda>a. None)(0 \<mapsto> example_tx)"

section \<open>Properties of the gas estimators\<close>

lemma sdiv_trunc:
  assumes "0 < b"
  shows "a sdiv b = rat_trunc (of_int a / of_int b)"
proof (cases "0 \<le> a")
  case True
  then have "(0::rat) \<le> of_int a / of_int b"
    using assms by simp
  moreover have "a sdiv b = a div b"
    using True assms by (simp add: signed_divide_int_def sgn_if)
  ultimately show ?thesis
    by (simp add: rat_trunc_def floor_divide_of_int_eq)
next
  case False
  then have neg: "(of_int a / of_int b :: rat) < 0"
    using assms by (simp add: divide_neg_pos)
  have "a sdiv b = - ((- a) div b)"
    using False assms by (simp add: signed_divide_int_def sgn_if)
  also have "\<dots> = - \<lfloor>(of_int (- a) / of_int b :: rat)\<rfloor>"
    by (simp only: floor_divide_of_int_eq)
  also have "\<dots> = \<lceil>(of_int a / of_int b :: rat)\<rceil>"
    by (simp add: ceiling_def)
  finally show ?thesis
    using neg by (simp add: rat_trunc_def)
qed

lemma BigNumber_from_Inr: "BigNumber_from v = Inr k \<Longrightarrow> of_int k = v"
  by (auto simp: BigNumber_from_def split: if_splits)

lemma buffered_is_truncated:
  assumes "BigNumber_mul e v = Inr scaled"
  shows "BigNumber_div scaled 10000 = rat_trunc (of_int e * (v / 10000))"
proof -
  from assms obtain k where k: "BigNumber_from v = Inr k" and s: "scaled = e * k"
    by (auto simp: BigNumber_mul_def split: sum.splits)
  have "of_int k = v"
    using k by (rule BigNumber_from_Inr)
  then have "(of_int scaled / of_int 10000 :: rat) = of_int e * (v / 10000)"
    using s by simp
  moreover have "scaled sdiv 10000 = rat_trunc (of_int scaled / of_int 10000)"
    by (rule sdiv_trunc) simp
  ultimately show ?thesis
    by (simp add: BigNumber_div_def)
qed

lemma raw_estimated:
  assumes "tx_gasLimit tx = None" and "prov_estimateGas prov tx = Inr e"
    and "BigNumber_mul e (js_mul 10000 (max 1 (gasBuffer cfg))) = Inr scaled"
  shows "getRawTxGasLimit cfg prov tx =
           (Inr (let b = BigNumber_div scaled 10000
                 in if b < minGas cfg then minGas cfg
                    else if maxGas cfg < b then maxGas cfg else b),
            [EstimateGas tx])"
  using assms by (simp add: getRawTxGasLimit_def Let_def)

lemma contract_estimated:
  assumes "c_estimateGas c method params = Inr e"
    and "BigNumber_mul e (js_mul 10000 (max 1 (gasBuffer cfg))) = Inr scaled"
  shows "getContractTxGasLimit cfg c method params None =
           (Inr (let b = BigNumber_div scaled 10000
                 in if b < minGas cfg then minGas cfg
                    else if maxGas cfg < b then maxGas cfg else b),
            [ContractEstimateGas method params])"
  using assms by (simp add: getContractTxGasLimit_def Let_def)

text \<open>
  Claim C1, as amended. When the caller supplies an explicit gas limit, to either
  estimator, the estimation primitive is not called (no call is recorded, and the result
  does not depend on the provider or on the contract) and no buffer is applied; the explicit
  limit is still clamped: the result is \<open>minGas\<close> when the limit is below \<open>minGas\<close>,
  else \<open>maxGas\<close> when it is above \<open>maxGas\<close>, else the limit itself.
\<close>

theorem explicit_gas_limit_skips_estimation_but_is_clamped:
  "(tx_gasLimit tx = Some g \<longrightarrow>
      getRawTxGasLimit cfg prov tx =
        (Inr (if g < minGas cfg then minGas cfg
              else if maxGas cfg < g then maxGas cfg else g), []))
   \<and> getContractTxGasLimit cfg c method params (Some g) =
        (Inr (if g < minGas cfg then minGas cfg
              else if maxGas cfg < g then maxGas cfg else g), [])"
  by (simp add: getRawTxGasLimit_def getContractTxGasLimit_def)

theorem explicit_gas_limit_skips_estimation_but_is_clamped_witness:
  "tx_gasLimit (example_tx\<lparr>tx_gasLimit := Some 30000\<rparr>) = Some 30000
   \<and> getRawTxGasLimit example_config (example_provider 100000) (example_tx\<lparr>tx_gasLimit := Some 30000\<rparr>)
       = (Inr 30000, [])
   \<and> getContractTxGasLimit example_config (example_contract 100000) ''swap'' [] (Some 30000)
       = (Inr 30000, [])"
proof -
  have h: "tx_gasLimit (example_tx\<lparr>tx_gasLimit := Some 30000\<rparr>) = Some 30000"
    by simp
  show ?thesis
    using h explicit_gas_limit_skips_estimation_but_is_clamped
            [of "example_tx\<lparr>tx_gasLimit := Some 30000\<rparr>" 30000 example_config
                "example_provider 100000" "example_contract 100000" "''swap''" "[]"]
    by (simp add: example_config_def)
qed

text \<open>
  Claim C1 as stated fails: an explicit limit of 5 on a network whose \<open>minGas\<close> is 21000
  is not returned unchanged; the estimator returns 21000.
\<close>

theorem explicit_gas_limit_changed_counterexample:
  "tx_gasLimit (example_tx\<lparr>tx_gasLimit := Some 5\<rparr>) = Some 5
   \<and> fst (getRawTxGasLimit example_config (example_provider 100000) (example_tx\<lparr>tx_gasLimit := Some 5\<rparr>))
       = Inr 21000
   \<and> fst (getRawTxGasLimit example_config (example_provider 100000) (example_tx\<lparr>tx_gasLimit := Some 5\<rparr>))
       \<noteq> Inr 5"
  by (simp add: getRawTxGasLimit_def example_config_def example_tx_def)

text \<open>
  Claim C7. Without an explicit limit, when the estimation primitive returns an estimate
  and the buffer is applied to it, either estimator returns \<open>minGas\<close> if the buffered
  estimate is below \<open>minGas\<close>, \<open>maxGas\<close> if it is above \<open>maxGas\<close> (and not below
  \<open>minGas\<close>, which cannot be when \<open>minGas \<le> maxGas\<close>), and the buffered estimate
  unchanged otherwise.
\<close>

theorem estimated_gas_limit_is_clamped:
  assumes "tx_gasLimit tx = None" and "prov_estimateGas prov tx = Inr e"
    and "c_estimateGas c method params = Inr e"
    and "BigNumber_mul e (js_mul 10000 (max 1 (gasBuffer cfg))) = Inr scaled"
    and "buffered = BigNumber_div scaled 10000"
    and "r = fst (getRawTxGasLimit cfg prov tx)
         \<or> r = fst (getContractTxGasLimit cfg c method params None)"
  shows "(buffered < minGas cfg \<longrightarrow> r = Inr (minGas cfg))
       \<and> (minGas cfg \<le> buffered \<and> maxGas cfg < buffered \<longrightarrow> r = Inr (maxGas cfg))
       \<and> (minGas cfg \<le> buffered \<and> buffered \<le> maxGas cfg \<longrightarrow> r = Inr buffered)
       \<and> (minGas cfg \<le> maxGas cfg \<and> maxGas cfg < buffered \<longrightarrow> r = Inr (maxGas cfg))"
  using assms raw_estimated [of tx prov e cfg scaled]
    contract_estimated [of c "method" "params" e cfg scaled]
  by (auto simp: Let_def)

theorem estimated_gas_limit_is_clamped_witness:
  "fst (getRawTxGasLimit example_config (example_provider 10) example_tx) = Inr 21000
   \<and> fst (getContractTxGasLimit example_config (example_contract 100000) ''swap'' [] None)
       = Inr 150000
   \<and> fst (getRawTxGasLimit example_config (example_provider 20000000) example_tx)
       = Inr 15000000"
proof -
  have tx: "tx_gasLimit example_tx = None"
    by (simp add: example_tx_def)
  have low: "BigNumber_mul 10 (js_mul 10000 (max 1 (gasBuffer example_config))) = Inr 150000"
    and mid: "BigNumber_mul 100000 (js_mul 10000 (max 1 (gasBuffer example_config)))
                 = Inr 1500000000"
    and high: "BigNumber_mul 20000000 (js_mul 10000 (max 1 (gasBuffer example_config)))
                 = Inr 300000000000"
    by code_simp+
  have d: "BigNumber_div 150000 10000 = 15" "BigNumber_div 1500000000 10000 = 150000"
    "BigNumber_div 300000000000 10000 = 30000000"
    by (simp_all add: BigNumber_div_def signed_divide_int_def)
  have "fst (getRawTxGasLimit example_config (example_provider 10) example_tx) = Inr 21000"
    using estimated_gas_limit_is_clamped
            [of example_tx "example_provider 10" 10 "example_contract 10" "''swap''" "[]"
                example_config 150000 15
                "fst (getRawTxGasLimit example_config (example_provider 10) example_tx)"]
          tx low d
    by (simp add: example_provider_def example_contract_def example_config_def)
  moreover
  have "fst (getContractTxGasLimit example_config (example_contract 100000) ''swap'' [] None)
          = Inr 150000"
    using estimated_gas_limit_is_clamped
            [of example_tx "example_provider 100000" 100000 "example_contract 100000"
                "''swap''" "[]" example_config 1500000000 150000
                "fst (getContractTxGasLimit example_config (example_contract 100000)
                        ''swap'' [] None)"]
          tx mid d
    by (simp add: example_provider_def example_contract_def example_config_def)
  moreover
  have "fst (getRawTxGasLimit example_config (example_provider 20000000) example_tx)
          = Inr 15000000"
    using estimated_gas_limit_is_clamped
            [of example_tx "example_provider 20000000" 20000000 "example_contract 20000000"
                "''swap''" "[]" example_config 300000000000 30000000
                "fst (getRawTxGasLimit example_config (example_provider 20000000)
                        example_tx)"]
          tx high d
    by (simp add: example_provider_def example_contract_def example_config_def)
  ultimately show ?thesis
    by simp
qed

subsection \<open>The rounding of doubles\<close>

lemma pow2_powi: "pow2 k = 2 powi k"
  by (simp add: pow2_def power_int_def inverse_eq_divide power_one_over)

lemma pow2_pos: "0 < pow2 k"
  by (simp add: pow2_powi)

lemma pow2_add: "pow2 (i + j) = pow2 i * pow2 j"
  by (simp add: pow2_powi power_int_add)

lemma pow2_nat: "0 \<le> k \<Longrightarrow> pow2 k = 2 ^ nat k"
  by (simp add: pow2_def)

lemma bitlen_rat_bounds:
  assumes "0 < a"
  shows "pow2 (bitlen a - 1) \<le> of_int a \<and> of_int a < pow2 (bitlen a)"
proof -
  from bitlen_bounds [OF assms]
  have l: "2 ^ nat (bitlen a - 1) \<le> a" and u: "a < 2 ^ nat (bitlen a)"
    by simp_all
  have ge: "1 \<le> bitlen a"
    using assms by (auto simp: bitlen_alt_def)
  have "(of_int (2 ^ nat (bitlen a - 1)) :: rat) \<le> of_int a"
    using l by (simp only: of_int_le_iff)
  moreover have "(of_int a :: rat) < of_int (2 ^ nat (bitlen a))"
    using u by (simp only: of_int_less_iff)
  ultimately show ?thesis
    using ge bitlen_nonneg [of a] by (simp add: pow2_nat)
qed

text \<open>\<open>fl_exponent\<close> is the binary exponent.\<close>

lemma fl_exponent_bounds:
  assumes "0 < q"
  shows "pow2 (fl_exponent q) \<le> q \<and> q < pow2 (fl_exponent q + 1)"
proof -
  obtain a b where ab: "quotient_of q = (a, b)"
    by (cases "quotient_of q")
  have b: "0 < b"
    using ab quotient_of_denom_pos by blast
  have q: "q = of_int a / of_int b"
    using ab by (rule quotient_of_div)
  have a: "0 < a"
    using assms b q by (simp add: zero_less_divide_iff)
  let ?d = "bitlen a - bitlen b"
  from bitlen_rat_bounds [OF a] bitlen_rat_bounds [OF b]
  have la: "pow2 (bitlen a - 1) \<le> of_int a" and ua: "of_int a < pow2 (bitlen a)"
    and lb: "pow2 (bitlen b - 1) \<le> of_int b" and ub: "of_int b < pow2 (bitlen b)"
    by simp_all
  have bpos: "(0::rat) < of_int b"
    using b by simp
  have "q < pow2 (bitlen a) / pow2 (bitlen b - 1)"
    unfolding q using ua lb bpos pow2_pos [of "bitlen b - 1"] a
    by (meson frac_less of_int_0_le_iff less_imp_le)
  also have "pow2 (bitlen a) / pow2 (bitlen b - 1) = pow2 (?d + 1)"
    using pow2_add [of "?d + 1" "bitlen b - 1"] pow2_pos [of "bitlen b - 1"]
    by (simp add: field_simps)
  finally have upper: "q < pow2 (?d + 1)" .
  have "pow2 (bitlen a - 1) / pow2 (bitlen b) < q"
    unfolding q using la ub bpos pow2_pos [of "bitlen a - 1"]
    by (meson frac_less2 less_imp_le order_refl pow2_pos less_le_trans)
  moreover have "pow2 (bitlen a - 1) / pow2 (bitlen b) = pow2 (?d - 1)"
    using pow2_add [of "?d - 1" "bitlen b"] pow2_pos [of "bitlen b"]
    by (simp add: field_simps)
  ultimately have lower: "pow2 (?d - 1) < q"
    by simp
  show ?thesis
  proof (cases "pow2 ?d \<le> q")
    case True
    with upper ab show ?thesis
      by (simp add: fl_exponent_def)
  next
    case False
    with lower ab show ?thesis
      by (simp add: fl_exponent_def)
  qed
qed

text \<open>Rounding to an integer moves by at most one half.\<close>

lemma round_half_even_nearest: "\<bar>of_int (round_half_even x) - x\<bar> \<le> 1 / 2"
proof -
  have "of_int \<lfloor>x\<rfloor> \<le> x" and "x < of_int \<lfloor>x\<rfloor> + 1"
    by linarith+
  then show ?thesis
    by (auto simp: round_half_even_def Let_def)
qed

text \<open>
  Claim C9, at an input where it fails, and at the input it names. With a buffer of 1.11
  the number \<open>10000 * 1.11\<close> is the double 11100.000000000002 (the exact product lies
  more than half a step above 11100), BigNumber refuses it, and both estimators throw a
  numeric fault where exact scaling of the estimate 100000 gives 111000. With a buffer of
  1.5 the number is 15000 and the estimate 100000 gives exactly 150000.
\<close>

theorem gas_buffer_scaling_rounding_artifact:
  "gasBuffer rounding_config = 4998995586381251 / 4503599627370496
   \<and> js_mul 10000 (max 1 (gasBuffer rounding_config)) = 6102289534156801 / 549755813888
   \<and> fst (getRawTxGasLimit rounding_config (example_provider 100000) example_tx)
       = Inl (NUMERIC_FAULT ''underflow'')
   \<and> fst (getContractTxGasLimit rounding_config (example_contract 100000) ''swap'' [] None)
       = Inl (NUMERIC_FAULT ''underflow'')
   \<and> rat_trunc (of_int 100000 * max 1 (gasBuffer rounding_config)) = 111000
   \<and> js_mul 10000 (max 1 (gasBuffer example_config)) = 15000
   \<and> fst (getRawTxGasLimit example_config (example_provider 100000) example_tx) = Inr 150000
   \<and> fst (getContractTxGasLimit example_config (example_contract 100000) ''swap'' [] None)
       = Inr 150000"
  by code_simp

section \<open>Properties of the classifier\<close>

lemma toLowerCase_Nil [simp]: "toLowerCase s = [] \<longleftrightarrow> s = []"
  by (simp add: toLowerCase_def)

lemma toLowerCase_empty [simp]: "toLowerCase [] = []"
  by (simp add: toLowerCase_def)

lemma str_includes_Nil [simp]: "str_includes [] p \<longleftrightarrow> p = []"
  by (simp add: str_includes_def)

lemma str_includes_map:
  assumes "str_includes s p"
  shows "str_includes (map f s) (map f p)"
  using assms unfolding str_includes_def sublist_def by (metis map_append)

lemma lower_rejected: "toLowerCase ''User rejected transaction'' = ''user rejected transaction''"
  by (simp add: toLowerCase_def toLowerChar_def)

lemma lower_slippage:
  "toLowerCase ''TotalCostOutsideOfSpecifiedBounds'' = ''totalcostoutsideofspecifiedbounds''"
  by (simp add: toLowerCase_def toLowerChar_def)

subsection \<open>A walk that returns gives the first matching reason\<close>

lemma table_plain:
  "list_all (\<lambda>(reason, patterns). list_all plain_pattern patterns) TX_ERROR_PATTERNS"
  by (simp add: TX_ERROR_PATTERNS_def plain_pattern_def name_pattern_def msg_pattern_def
        code_pattern_def)

lemma match_pattern_Inr:
  assumes "plain_pattern p" and "match_pattern p c m d = Inr b"
  shows "b = pattern_matches p c m d"
  using assms
  by (cases m)
     (auto simp: match_pattern_def matchMessage_def matchCode_def matchName_def
           pattern_matches_def plain_pattern_def
           split: option.splits if_splits sum.splits)

lemma match_patterns_Inr:
  "list_all plain_pattern ps \<Longrightarrow> match_patterns ps c m d = Inr b \<Longrightarrow>
   b = list_ex (\<lambda>p. pattern_matches p c m d) ps"
proof (induction ps)
  case Nil
  then show ?case by simp
next
  case (Cons p ps)
  then show ?case
    by (auto split: sum.splits bool.splits dest: match_pattern_Inr)
qed

lemma match_table_Inr:
  "list_all (\<lambda>(reason, patterns). list_all plain_pattern patterns) tbl \<Longrightarrow>
   match_table tbl c m d = Inr res \<Longrightarrow>
   res = map_option fst
           (find (\<lambda>(reason, patterns). list_ex (\<lambda>p. pattern_matches p c m d) patterns) tbl)"
proof (induction tbl)
  case Nil
  then show ?case by simp
next
  case (Cons entry tbl)
  obtain reason patterns where entry: "entry = (reason, patterns)"
    by (cases entry)
  show ?case
    using Cons entry by (auto split: sum.splits bool.splits dest: match_patterns_Inr)
qed

lemma extractError_Inr:
  assumes "extractError rawError contract = Inr err"
  shows "err = \<lparr>err_code = opt_get (unwrap_error rawError) ''code'',
                 err_message = opt_get (unwrap_error rawError) ''message'',
                 err_data = error_data (unwrap_error rawError),
                 err_description = decode_error (error_data (unwrap_error rawError)) contract,
                 err_reason =
                   first_matching_reason (opt_get (unwrap_error rawError) ''code'')
                     (opt_get (unwrap_error rawError) ''message'')
                     (decode_error (error_data (unwrap_error rawError)) contract)\<rparr>"
proof -
  from assms obtain res where
    res: "match_table TX_ERROR_PATTERNS (opt_get (unwrap_error rawError) ''code'')
            (opt_get (unwrap_error rawError) ''message'')
            (decode_error (error_data (unwrap_error rawError)) contract) = Inr res"
    and err: "err = \<lparr>err_code = opt_get (unwrap_error rawError) ''code'',
                 err_message = opt_get (unwrap_error rawError) ''message'',
                 err_data = error_data (unwrap_error rawError),
                 err_description = decode_error (error_data (unwrap_error rawError)) contract,
                 err_reason = res\<rparr>"
    by (auto simp: extractError_def Let_def split: sum.splits)
  from match_table_Inr [OF table_plain res] err show ?thesis
    by (simp add: first_matching_reason_def)
qed

subsection \<open>The walk returns when the message is a string or is falsy\<close>

lemma match_pattern_total:
  "(case m of JStr s \<Rightarrow> True | v \<Rightarrow> \<not> truthy v) \<Longrightarrow> \<exists>b. match_pattern p c m d = Inr b"
  by (cases m) (auto simp: match_pattern_def matchMessage_def split: option.splits)

lemma match_patterns_total:
  assumes "case m of JStr s \<Rightarrow> True | v \<Rightarrow> \<not> truthy v"
  shows "\<exists>b. match_patterns ps c m d = Inr b"
proof (induction ps)
  case Nil
  show ?case by (rule exI [of _ False]) simp
next
  case (Cons p ps)
  from match_pattern_total [OF assms] obtain b where "match_pattern p c m d = Inr b"
    by blast
  with Cons show ?case by (cases b) auto
qed

lemma match_table_total:
  assumes "case m of JStr s \<Rightarrow> True | v \<Rightarrow> \<not> truthy v"
  shows "\<exists>res. match_table tbl c m d = Inr res"
proof (induction tbl)
  case Nil
  show ?case by (rule exI [of _ None]) simp
next
  case (Cons entry tbl)
  obtain reason patterns where entry: "entry = (reason, patterns)"
    by (cases entry)
  from match_patterns_total [OF assms] obtain b where "match_patterns patterns c m d = Inr b"
    by blast
  with Cons entry show ?case by (cases b) auto
qed

lemma extractError_total:
  assumes "case opt_get (unwrap_error rawError) ''message'' of
             JStr s \<Rightarrow> True | v \<Rightarrow> \<not> truthy v"
  shows "\<exists>e. extractError rawError contract = Inr e"
proof -
  from match_table_total [OF assms] obtain res where
    "match_table TX_ERROR_PATTERNS (opt_get (unwrap_error rawError) ''code'')
       (opt_get (unwrap_error rawError) ''message'')
       (decode_error (error_data (unwrap_error rawError)) contract) = Inr res"
    by blast
  then show ?thesis
    by (simp add: extractError_def Let_def)
qed

subsection \<open>Single rules\<close>

lemma slippage_first:
  assumes "d = Some name"
    and "str_includes (toLowerCase name) (toLowerCase ''TotalCostOutsideOfSpecifiedBounds'')"
  shows "match_table TX_ERROR_PATTERNS c m d = Inr (Some TradeSlippage)"
  using assms
  by (simp add: TX_ERROR_PATTERNS_def match_pattern_def matchMessage_def matchName_def
        matchCode_def name_pattern_def)

lemma extractError_slippage:
  assumes "decode_error (error_data (unwrap_error rawError)) contract = Some name"
    and "str_includes (toLowerCase name) ''totalcostoutsideofspecifiedbounds''"
  shows "\<exists>e. extractError rawError contract = Inr e \<and> err_reason e = Some TradeSlippage"
  using assms slippage_first [of "Some name" name]
  by (simp add: extractError_def Let_def lower_slippage)

lemma rejected_after_slippage:
  assumes "str_includes (toLowerCase s) ''user rejected transaction''"
    and "\<not> matchName (name_pattern ''TotalCostOutsideOfSpecifiedBounds'') d"
  shows "match_table TX_ERROR_PATTERNS c (JStr s) d = Inr (Some UserDenied)"
proof -
  have ne: "s \<noteq> []"
    using assms(1) by auto
  show ?thesis
    using assms ne
    by (cases "str_includes (toLowerCase s) (toLowerCase ''User denied transaction signature'')")
       (simp_all add: TX_ERROR_PATTERNS_def match_pattern_def matchMessage_def matchCode_def
          name_pattern_def msg_pattern_def lower_rejected matchName_def)
qed

text \<open>
  Claim C6, as amended. The table lists the reasons in the order TradeSlippage,
  UserDenied, NotEnoughFunds, NetworkChanged, RpcError. For every raw error whose
  unwrapped message is a string or is falsy, classification returns the code, message,
  data and decoded description of the unwrapped error, with the first matching reason:
  the first reason of the table, in that order, one of whose patterns matches these
  (none if no pattern matches). For every raw error, a classification that returns has
  that reason; and a raw error whose data decodes to a custom error whose name contains
  \<open>TotalCostOutsideOfSpecifiedBounds\<close> and whose code is -32005 is classified
  TradeSlippage.
\<close>

theorem classification_first_match_wins:
  assumes "errorCode = opt_get (unwrap_error rawError) ''code''"
    and "errorMessage = opt_get (unwrap_error rawError) ''message''"
    and "errorData = error_data (unwrap_error rawError)"
    and "errorDescription = decode_error errorData contract"
  shows "map fst TX_ERROR_PATTERNS
           = [TradeSlippage, UserDenied, NotEnoughFunds, NetworkChanged, RpcError]
    \<and> ((case errorMessage of JStr s \<Rightarrow> True | v \<Rightarrow> \<not> truthy v) \<longrightarrow>
          extractError rawError contract
            = Inr \<lparr>err_code = errorCode, err_message = errorMessage, err_data = errorData,
                   err_description = errorDescription,
                   err_reason = first_matching_reason errorCode errorMessage errorDescription\<rparr>)
    \<and> (\<forall>err. extractError rawError contract = Inr err \<longrightarrow>
          err = \<lparr>err_code = errorCode, err_message = errorMessage, err_data = errorData,
                  err_description = errorDescription,
                  err_reason = first_matching_reason errorCode errorMessage errorDescription\<rparr>)
    \<and> (errorDescription = Some name
          \<and> str_includes name ''TotalCostOutsideOfSpecifiedBounds''
          \<and> errorCode = JNum (- 32005)
        \<longrightarrow> extractError rawError contract
              = Inr \<lparr>err_code = errorCode, err_message = errorMessage, err_data = errorData,
                     err_description = errorDescription, err_reason = Some TradeSlippage\<rparr>)"
proof -
  have order: "map fst TX_ERROR_PATTERNS
                 = [TradeSlippage, UserDenied, NotEnoughFunds, NetworkChanged, RpcError]"
    by (simp add: TX_ERROR_PATTERNS_def)
  have returned: "err = \<lparr>err_code = errorCode, err_message = errorMessage,
                           err_data = errorData, err_description = errorDescription,
                           err_reason =
                             first_matching_reason errorCode errorMessage errorDescription\<rparr>"
    if "extractError rawError contract = Inr err" for err
    using extractError_Inr [OF that] assms by simp
  have total: "extractError rawError contract
                 = Inr \<lparr>err_code = errorCode, err_message = errorMessage,
                        err_data = errorData, err_description = errorDescription,
                        err_reason =
                          first_matching_reason errorCode errorMessage errorDescription\<rparr>"
    if "case errorMessage of JStr s \<Rightarrow> True | v \<Rightarrow> \<not> truthy v"
  proof -
    from extractError_total [of rawError contract] that assms(2)
    obtain e where e: "extractError rawError contract = Inr e"
      by auto
    from returned [OF e] e show ?thesis
      by simp
  qed
  have slippage: "extractError rawError contract
                    = Inr \<lparr>err_code = errorCode, err_message = errorMessage,
                           err_data = errorData, err_description = errorDescription,
                           err_reason = Some TradeSlippage\<rparr>"
    if "errorDescription = Some name"
      and "str_includes name ''TotalCostOutsideOfSpecifiedBounds''"
  proof -
    have "str_includes (toLowerCase name) ''totalcostoutsideofspecifiedbounds''"
      using str_includes_map [OF that(2), of toLowerChar] lower_slippage
      by (simp add: toLowerCase_def)
    with extractError_slippage [of rawError contract name] that(1) assms(3,4)
    obtain e where e: "extractError rawError contract = Inr e"
      and r: "err_reason e = Some TradeSlippage"
      by auto
    from returned [OF e] r e show ?thesis
      by simp
  qed
  from order total returned slippage show ?thesis
    by blast
qed

lemma example_reasons:
  "first_matching_reason (JNum (- 32005)) (JStr ''Request limit exceeded'')
     (Some ''TotalCostOutsideOfSpecifiedBounds'') = Some TradeSlippage"
  "first_matching_reason (JNum 4001) (JStr ''Request limit exceeded'') None = Some UserDenied"
  "first_matching_reason (JNum (- 32000)) (JStr ''not enough funds for gas'') None
     = Some NotEnoughFunds"
  "first_matching_reason (JStr ''NETWORK_ERROR'') (JStr ''underlying network changed'') None
     = Some NetworkChanged"
  "first_matching_reason (JNum (- 32005)) (JStr ''Request limit exceeded'') None
     = Some RpcError"
  "first_matching_reason (JNum 3) (JStr ''execution reverted'') None = None"
  by code_simp+

theorem classification_first_match_wins_witness:
  "err_reason (projr (extractError slippage_rpc_error (Some (c_parseError slippage_contract))))
     = Some TradeSlippage
   \<and> err_reason (projr (extractError denied_rate_limit_error None)) = Some UserDenied
   \<and> err_reason (projr (extractError funds_error None)) = Some NotEnoughFunds
   \<and> err_reason (projr (extractError network_changed_error None)) = Some NetworkChanged
   \<and> err_reason (projr (extractError slippage_rpc_error None)) = Some RpcError
   \<and> err_reason (projr (extractError unknown_error None)) = None
   \<and> \<not> isl (extractError slippage_rpc_error (Some (c_parseError slippage_contract)))
   \<and> \<not> isl (extractError denied_rate_limit_error None)
   \<and> \<not> isl (extractError funds_error None)
   \<and> \<not> isl (extractError network_changed_error None)
   \<and> \<not> isl (extractError slippage_rpc_error None)
   \<and> \<not> isl (extractError unknown_error None)"
proof -
  have fields:
    "opt_get (unwrap_error slippage_rpc_error) ''code'' = JNum (- 32005)"
    "opt_get (unwrap_error slippage_rpc_error) ''message'' = JStr ''Request limit exceeded''"
    "error_data (unwrap_error slippage_rpc_error) = JStr ''0x1234''"
    "opt_get (unwrap_error denied_rate_limit_error) ''code'' = JNum 4001"
    "opt_get (unwrap_error denied_rate_limit_error) ''message''
       = JStr ''Request limit exceeded''"
    "opt_get (unwrap_error funds_error) ''code'' = JNum (- 32000)"
    "opt_get (unwrap_error funds_error) ''message'' = JStr ''not enough funds for gas''"
    "opt_get (unwrap_error network_changed_error) ''code'' = JStr ''NETWORK_ERROR''"
    "opt_get (unwrap_error network_changed_error) ''message''
       = JStr ''underlying network changed''"
    "opt_get (unwrap_error unknown_error) ''code'' = JNum 3"
    "opt_get (unwrap_error unknown_error) ''message'' = JStr ''execution reverted''"
    by (simp_all add: slippage_rpc_error_def denied_rate_limit_error_def funds_error_def
          network_changed_error_def unknown_error_def unwrap_error_def coalesce_def
          error_data_def)
  have decoded:
    "decode_error (JStr ''0x1234'') (Some (c_parseError slippage_contract))
       = Some ''TotalCostOutsideOfSpecifiedBounds''"
    "decode_error d None = None" for d
    by (simp_all add: decode_error_def slippage_contract_def)
  have r: "\<not> isl (extractError rawError contract)
           \<and> err_reason (projr (extractError rawError contract))
               = first_matching_reason (opt_get (unwrap_error rawError) ''code'') (JStr s)
                   (decode_error (error_data (unwrap_error rawError)) contract)"
    if "opt_get (unwrap_error rawError) ''message'' = JStr s" for rawError contract s
  proof -
    have "case opt_get (unwrap_error rawError) ''message'' of
            JStr s \<Rightarrow> True | v \<Rightarrow> \<not> truthy v"
      using that by simp
    with classification_first_match_wins [OF refl refl refl refl, of rawError contract]
    have "extractError rawError contract
            = Inr \<lparr>err_code = opt_get (unwrap_error rawError) ''code'',
                   err_message = opt_get (unwrap_error rawError) ''message'',
                   err_data = error_data (unwrap_error rawError),
                   err_description =
                     decode_error (error_data (unwrap_error rawError)) contract,
                   err_reason =
                     first_matching_reason (opt_get (unwrap_error rawError) ''code'')
                       (opt_get (unwrap_error rawError) ''message'')
                       (decode_error (error_data (unwrap_error rawError)) contract)\<rparr>"
      by blast
    with that show ?thesis
      by simp
  qed
  have "\<not> isl (extractError slippage_rpc_error (Some (c_parseError slippage_contract)))
        \<and> err_reason (projr (extractError slippage_rpc_error
                                (Some (c_parseError slippage_contract))))
            = Some TradeSlippage"
    using r [OF fields(2), of "Some (c_parseError slippage_contract)"] fields(1,3) decoded(1)
      example_reasons(1)
    by simp
  moreover
  have "\<not> isl (extractError denied_rate_limit_error None)
        \<and> err_reason (projr (extractError denied_rate_limit_error None)) = Some UserDenied"
    using r [OF fields(5), of None] fields(4) decoded(2) example_reasons(2)
    by simp
  moreover
  have "\<not> isl (extractError funds_error None)
        \<and> err_reason (projr (extractError funds_error None)) = Some NotEnoughFunds"
    using r [OF fields(7), of None] fields(6) decoded(2) example_reasons(3)
    by simp
  moreover
  have "\<not> isl (extractError network_changed_error None)
        \<and> err_reason (projr (extractError network_changed_error None)) = Some NetworkChanged"
    using r [OF fields(9), of None] fields(8) decoded(2) example_reasons(4)
    by simp
  moreover
  have "\<not> isl (extractError slippage_rpc_error None)
        \<and> err_reason (projr (extractError slippage_rpc_error None)) = Some RpcError"
    using r [OF fields(2), of None] fields(1) decoded(2) example_reasons(5)
    by simp
  moreover
  have "\<not> isl (extractError unknown_error None)
        \<and> err_reason (projr (extractError unknown_error None)) = None"
    using r [OF fields(11), of None] fields(10) decoded(2) example_reasons(6)
    by simp
  ultimately show ?thesis
    by blast
qed

text \<open>
  Claim C6 as stated fails: the code of this error is 4001, a code of UserDenied, no
  pattern of TradeSlippage matches it, and its message is the number 5; the first
  matching reason is UserDenied, and classification throws a TypeError instead of
  returning it.
\<close>

theorem numeric_message_not_classified_counterexample:
  "opt_get (unwrap_error numeric_message_error) ''code'' = JNum 4001
   \<and> opt_get (unwrap_error numeric_message_error) ''message'' = JNum 5
   \<and> first_matching_reason (JNum 4001) (JNum 5) None = Some UserDenied
   \<and> extractError numeric_message_error None = Inl TypeError_toLowerCase"
  by code_simp

text \<open>
  Claim C8, as amended. A raw error whose innermost error (\<open>rawError.error.error\<close>, else
  \<open>rawError.error\<close>, else the error itself, the first that is neither \<open>null\<close> nor
  \<open>undefined\<close>) has a message that contains, case-insensitively, \<open>user rejected
  transaction\<close> is classified UserDenied, unless its data is decoded by the contract to a
  custom error whose name contains, case-insensitively,
  \<open>TotalCostOutsideOfSpecifiedBounds\<close>: that rule comes first in the table.
\<close>

theorem user_rejected_is_UserDenied_unless_slippage:
  assumes "opt_get (unwrap_error rawError) ''message'' = JStr m"
    and "str_includes (toLowerCase m) ''user rejected transaction''"
    and "case decode_error (error_data (unwrap_error rawError)) contract of
           None \<Rightarrow> True
         | Some name \<Rightarrow>
             \<not> str_includes (toLowerCase name) ''totalcostoutsideofspecifiedbounds''"
  shows "\<exists>e. extractError rawError contract = Inr e \<and> err_reason e = Some UserDenied"
proof -
  have "\<not> matchName (name_pattern ''TotalCostOutsideOfSpecifiedBounds'')
            (decode_error (error_data (unwrap_error rawError)) contract)"
    using assms(3)
    by (simp add: matchName_def name_pattern_def lower_slippage split: option.splits)
  from rejected_after_slippage [OF assms(2) this] assms(1) show ?thesis
    by (simp add: extractError_def Let_def)
qed

theorem user_rejected_is_UserDenied_unless_slippage_witness:
  "unwrap_error user_rejected = user_rejected
   \<and> unwrap_error (wrap user_rejected) = user_rejected
   \<and> unwrap_error (wrap (wrap user_rejected)) = user_rejected
   \<and> str_includes (toLowerCase ''MetaMask Tx Signature: User Rejected Transaction.'')
       ''user rejected transaction''
   \<and> (\<exists>e. extractError user_rejected None = Inr e \<and> err_reason e = Some UserDenied)
   \<and> (\<exists>e. extractError (wrap user_rejected) None = Inr e \<and> err_reason e = Some UserDenied)
   \<and> (\<exists>e. extractError (wrap (wrap user_rejected)) None = Inr e
          \<and> err_reason e = Some UserDenied)"
proof -
  have u: "unwrap_error user_rejected = user_rejected"
    "unwrap_error (wrap user_rejected) = user_rejected"
    "unwrap_error (wrap (wrap user_rejected)) = user_rejected"
    by (simp_all add: unwrap_error_def wrap_def coalesce_def user_rejected_def)
  have m: "opt_get user_rejected ''message''
             = JStr ''MetaMask Tx Signature: User Rejected Transaction.''"
    by (simp add: user_rejected_def)
  have i: "str_includes (toLowerCase ''MetaMask Tx Signature: User Rejected Transaction.'')
             ''user rejected transaction''"
    by (simp add: str_includes_def toLowerCase_def toLowerChar_def sublist_code)
  have d: "decode_error (error_data user_rejected) None = None"
    by (simp add: decode_error_def)
  show ?thesis
    using user_rejected_is_UserDenied_unless_slippage [of user_rejected _ None]
      user_rejected_is_UserDenied_unless_slippage [of "wrap user_rejected" _ None]
      user_rejected_is_UserDenied_unless_slippage [of "wrap (wrap user_rejected)" _ None]
      u m i d
    by simp
qed

text \<open>
  Claim C8 as stated fails: the message of this error is \<open>user rejected transaction\<close>,
  and it is classified TradeSlippage, because its data decodes to
  \<open>TotalCostOutsideOfSpecifiedBounds\<close>.
\<close>

theorem user_rejected_with_slippage_data_counterexample:
  "opt_get (unwrap_error slippage_rejected_error) ''message''
     = JStr ''user rejected transaction''
   \<and> str_includes (toLowerCase ''user rejected transaction'') ''user rejected transaction''
   \<and> extractError slippage_rejected_error (Some (c_parseError slippage_contract))
       = Inr \<lparr>err_code = JUndefined, err_message = JStr ''user rejected transaction'',
              err_data = JStr ''0x1234'',
              err_description = Some ''TotalCostOutsideOfSpecifiedBounds'',
              err_reason = Some TradeSlippage\<rparr>"
  by (simp add: slippage_rejected_error_def slippage_contract_def extractError_def
        unwrap_error_def coalesce_def error_data_def decode_error_def TX_ERROR_PATTERNS_def
        match_pattern_def matchMessage_def matchCode_def matchName_def name_pattern_def
        str_includes_def toLowerCase_def toLowerChar_def sublist_code)

section \<open>Properties of the receipt poller\<close>

lemma poll_found:
  assumes "\<forall>j<k. lookup (i + j) = Inr None" and "lookup (i + k) = Inr (Some r)" and "n + k \<le> 100"
  shows "pollReceipt lookup h n i = (Resolved (Some r), replicate (Suc k) (GetTransactionReceipt h))"
  using assms
proof (induction k arbitrary: n i)
  case 0
  then show ?case by simp
next
  case (Suc k)
  have first: "lookup i = Inr None" using Suc.prems(1) by (metis add.right_neutral zero_less_Suc)
  have rest: "\<forall>j<k. lookup (Suc i + j) = Inr None"
    using Suc.prems(1) by (metis Suc_less_eq add_Suc_right add_Suc)
  have "pollReceipt lookup h (Suc n) (Suc i) = (Resolved (Some r), replicate (Suc k) (GetTransactionReceipt h))"
    using Suc.IH [OF rest] Suc.prems(2,3) by simp
  with first Suc.prems(3) show ?case by simp
qed

lemma poll_exhausted:
  assumes "\<forall>j\<le>m. lookup (i + j) = Inr None" and "n + m = 100"
  shows "pollReceipt lookup h n i = (Resolved None, replicate (Suc m) (GetTransactionReceipt h))"
  using assms
proof (induction m arbitrary: n i)
  case 0
  then show ?case by simp
next
  case (Suc m)
  have first: "lookup i = Inr None" using Suc.prems(1) by (metis add.right_neutral le0)
  have rest: "\<forall>j\<le>m. lookup (Suc i + j) = Inr None"
    using Suc.prems(1) by (metis Suc_le_mono add_Suc_right add_Suc)
  have "pollReceipt lookup h (Suc n) (Suc i) = (Resolved None, replicate (Suc m) (GetTransactionReceipt h))"
    using Suc.IH [OF rest] Suc.prems(2) by simp
  with first Suc.prems(2) show ?case by simp
qed

lemma poll_failed:
  assumes "\<forall>j<k. lookup (i + j) = Inr None" and "lookup (i + k) = Inl e" and "n + k \<le> 100"
  shows "pollReceipt lookup h n i = (Unsettled e, replicate (Suc k) (GetTransactionReceipt h))"
  using assms
proof (induction k arbitrary: n i)
  case 0
  then show ?case by simp
next
  case (Suc k)
  have first: "lookup i = Inr None" using Suc.prems(1) by (metis add.right_neutral zero_less_Suc)
  have rest: "\<forall>j<k. lookup (Suc i + j) = Inr None"
    using Suc.prems(1) by (metis Suc_less_eq add_Suc_right add_Suc)
  have "pollReceipt lookup h (Suc n) (Suc i) = (Unsettled e, replicate (Suc k) (GetTransactionReceipt h))"
    using Suc.IH [OF rest] Suc.prems(2,3) by simp
  with first Suc.prems(3) show ?case by simp
qed

lemma poll_events: "\<exists>k. snd (pollReceipt lookup h n i) = replicate (Suc k) (GetTransactionReceipt h)"
proof (induction lookup h n i rule: pollReceipt.induct)
  case (1 lookup h n i)
  show ?case
  proof (cases "lookup i")
    case (Inl e)
    then show ?thesis by (auto intro: exI [of _ 0])
  next
    case (Inr v)
    show ?thesis
    proof (cases v)
      case None
      show ?thesis
      proof (cases "n < 100")
        case True
        from "1" [OF Inr None True] obtain k where
          "snd (pollReceipt lookup h (n + 1) (i + 1)) = replicate (Suc k) (GetTransactionReceipt h)" by blast
        with Inr None True show ?thesis
          by (auto simp: split_beta intro: exI [of _ "Suc k"])
      next
        case False
        with Inr None show ?thesis by (auto intro: exI [of _ 0])
      qed
    next
      case (Some r)
      with Inr show ?thesis by (auto intro: exI [of _ 0])
    qed
  qed
qed

text \<open>
  Claim C3, as amended. The poller returns the receipt as soon as a lookup yields it,
  provided that lookup is among the first 101: when lookups \<open>0, \<dots>, k - 1\<close> yield
  nothing and lookup \<open>k \<le> 100\<close> yields the receipt, it resolves to that receipt
  after \<open>k + 1\<close> lookups. When none of the first 101 lookups yields a receipt it
  resolves to \<open>null\<close> after exactly 101 lookups (the first one and 100 retries); it does
  not throw.
\<close>

theorem receipt_poller_gives_up_after_101_lookups:
  "((\<forall>j<k. lookup j = Inr None) \<and> lookup k = Inr (Some r) \<and> k \<le> 100 \<longrightarrow>
      pollReceipt lookup h 0 0 = (Resolved (Some r), replicate (Suc k) (GetTransactionReceipt h)))
   \<and> ((\<forall>j\<le>100. lookup j = Inr None) \<longrightarrow>
      pollReceipt lookup h 0 0 = (Resolved None, replicate 101 (GetTransactionReceipt h)))"
  using poll_found [of k lookup 0 r 0 h] poll_exhausted [of 100 lookup 0 0 h]
  by (simp add: eval_nat_numeral)

theorem receipt_poller_gives_up_after_101_lookups_witness:
  "pollReceipt (lookup_at 0 (example_receipt ''0xabc'')) ''0xabc'' 0 0
     = (Resolved (Some (example_receipt ''0xabc'')),
        replicate 1 (GetTransactionReceipt ''0xabc''))
   \<and> pollReceipt (lookup_at 100 (example_receipt ''0xabc'')) ''0xabc'' 0 0
     = (Resolved (Some (example_receipt ''0xabc'')),
        replicate 101 (GetTransactionReceipt ''0xabc''))
   \<and> pollReceipt lookup_never ''0xabc'' 0 0
     = (Resolved None, replicate 101 (GetTransactionReceipt ''0xabc''))"
  using receipt_poller_gives_up_after_101_lookups
          [of 0 "lookup_at 0 (example_receipt ''0xabc'')" "example_receipt ''0xabc''"
              "''0xabc''"]
        receipt_poller_gives_up_after_101_lookups
          [of 100 "lookup_at 100 (example_receipt ''0xabc'')" "example_receipt ''0xabc''"
              "''0xabc''"]
        receipt_poller_gives_up_after_101_lookups [of 0 lookup_never _ "''0xabc''"]
  by (simp add: lookup_at_def lookup_never_def)

text \<open>
  Claim C3 as stated fails: when no lookup ever yields a receipt the poller makes 101
  lookups, not 100, before it resolves to \<open>null\<close>; and a receipt that appears only at
  the 101st lookup is still returned.
\<close>

theorem receipt_poller_100_attempts_counterexample:
  "snd (pollReceipt lookup_never ''0xabc'' 0 0)
     = replicate 101 (GetTransactionReceipt ''0xabc'')
   \<and> length (snd (pollReceipt lookup_never ''0xabc'' 0 0)) \<noteq> 100
   \<and> fst (pollReceipt (lookup_at 100 (example_receipt ''0xabc'')) ''0xabc'' 0 0)
       = Resolved (Some (example_receipt ''0xabc''))"
  using poll_exhausted [of 100 lookup_never 0 0 "''0xabc''"]
    poll_found [of 100 "lookup_at 100 (example_receipt ''0xabc'')" 0
                   "example_receipt ''0xabc''" 0 "''0xabc''"]
  by (simp add: lookup_at_def lookup_never_def)

section \<open>Properties of the entry point\<close>

subsection \<open>The notification\<close>

lemma counts_simps [simp]:
  "created_count [] = 0" "terminal_count [] = 0" "on_toast tid []"
  "created_count (ev # evs) = (if is_created ev then 1 else 0) + created_count evs"
  "terminal_count (ev # evs) = (if is_terminal ev then 1 else 0) + terminal_count evs"
  "on_toast tid (ev # evs) \<longleftrightarrow> (toast_of ev = None \<or> toast_of ev = Some tid) \<and> on_toast tid evs"
  "created_count (evs @ evs') = created_count evs + created_count evs'"
  "terminal_count (evs @ evs') = terminal_count evs + terminal_count evs'"
  "on_toast tid (evs @ evs') \<longleftrightarrow> on_toast tid evs \<and> on_toast tid evs'"
  by (simp_all add: created_count_def terminal_count_def on_toast_def)

lemma counts_replicate [simp]:
  "created_count (replicate k (GetTransactionReceipt h)) = 0"
  "terminal_count (replicate k (GetTransactionReceipt h)) = 0"
  "on_toast tid (replicate k (GetTransactionReceipt h))"
  by (induction k) simp_all

lemma handleError_discipline:
  assumes "handleError rawError opts = (r, evs)"
  shows "created_count evs = 0 \<and> on_toast (o_toastId opts) evs
         \<and> (r = Inr () \<longrightarrow> terminal_count evs = 1)"
  using assms
  by (auto simp: handleError_def Let_def split: sum.splits option.splits if_splits)

lemma returnNullAfter_discipline:
  assumes "returnNullAfter (handleError rawError opts) = (out, evs)"
  shows "toast_discipline (o_toastId opts) out evs"
proof -
  obtain r hevs where h: "handleError rawError opts = (r, hevs)" by (cases "handleError rawError opts")
  from handleError_discipline [OF h] h assms show ?thesis
    by (auto simp: returnNullAfter_def toast_discipline_def split: sum.splits)
qed

lemma errorOptions_toastId [simp]: "o_toastId (errorOptions env options c r s) = env_toastId env"
  by (simp add: errorOptions_def)

lemma afterSubmit_discipline:
  assumes "afterSubmit env options contract response = (out, evs)"
  shows "toast_discipline (env_toastId env) out evs"
proof -
  obtain pr pevs where p: "pollReceipt (prov_getTransactionReceipt (env_provider env) (hash response))
      (hash response) 0 0 = (pr, pevs)" by (cases "pollReceipt (prov_getTransactionReceipt (env_provider env) (hash response))
      (hash response) 0 0")
  from poll_events [of "prov_getTransactionReceipt (env_provider env) (hash response)" "hash response" 0 0] p
  obtain k where k: "pevs = replicate (Suc k) (GetTransactionReceipt (hash response))" by auto
  show ?thesis
  proof (cases pr)
    case (Unsettled e)
    with assms p k show ?thesis
      by (auto simp: afterSubmit_def Let_def toast_discipline_def)
  next
    case (Resolved ro)
    show ?thesis
    proof (cases ro)
      case None
      with assms p k Resolved show ?thesis
        by (auto simp: afterSubmit_def Let_def toast_discipline_def)
    next
      case (Some receipt)
      show ?thesis
      proof (cases "status receipt = Some 0")
        case True
        obtain o2 hevs where r: "returnNullAfter (handleError Error_reverted
                          (errorOptions env options contract (Some receipt) Reverted)) = (o2, hevs)"
          by (cases "returnNullAfter (handleError Error_reverted
                          (errorOptions env options contract (Some receipt) Reverted))")
        from returnNullAfter_discipline [OF r] r assms p k Resolved Some True show ?thesis
          by (auto simp: afterSubmit_def Let_def toast_discipline_def split: outcome.splits)
      next
        case False
        with assms p k Resolved Some show ?thesis
          by (auto simp: afterSubmit_def Let_def toast_discipline_def split: option.splits)
      qed
    qed
  qed
qed

lemma getContractTxGasLimit_events:
  "snd (getContractTxGasLimit cfg c method params gl) = []
   \<or> snd (getContractTxGasLimit cfg c method params gl) = [ContractEstimateGas method params]"
  by (auto simp: getContractTxGasLimit_def Let_def split: option.splits sum.splits)

lemma getRawTxGasLimit_events:
  "snd (getRawTxGasLimit cfg prov tx) = [] \<or> snd (getRawTxGasLimit cfg prov tx) = [EstimateGas tx]"
  by (auto simp: getRawTxGasLimit_def Let_def split: option.splits sum.splits)

lemma methodBranch_discipline:
  assumes "methodBranch env options c method params gl = (out, evs)"
  shows "toast_discipline (env_toastId env) out evs"
proof -
  obtain g gevs where g: "getContractTxGasLimit (env_config env) c method params gl = (g, gevs)"
    by (cases "getContractTxGasLimit (env_config env) c method params gl")
  from getContractTxGasLimit_events [of "env_config env" c "method" "params" gl] g
  have ge: "created_count gevs = 0 \<and> terminal_count gevs = 0 \<and> on_toast (env_toastId env) gevs"
    by auto
  show ?thesis
  proof (cases g)
    case (Inl rawError)
    obtain o2 hevs where r: "returnNullAfter (handleError rawError
        (errorOptions env options (Some c) None GasEstimate)) = (o2, hevs)"
      by (cases "returnNullAfter (handleError rawError (errorOptions env options (Some c) None GasEstimate))")
    from returnNullAfter_discipline [OF r] r assms g ge Inl show ?thesis
      by (auto simp: methodBranch_def toast_discipline_def split: outcome.splits)
  next
    case (Inr gasLimit)
    show ?thesis
    proof (cases "c_call c method params gasLimit")
      case (Inl rawError)
      obtain o2 hevs where r: "returnNullAfter (handleError rawError
          (errorOptions env options (Some c) None Wallet)) = (o2, hevs)"
        by (cases "returnNullAfter (handleError rawError (errorOptions env options (Some c) None Wallet))")
      from returnNullAfter_discipline [OF r] r assms g ge Inl \<open>g = Inr gasLimit\<close> show ?thesis
        by (auto simp: methodBranch_def toast_discipline_def split: outcome.splits)
    next
      case (Inr response)
      obtain o2 aevs where r: "afterSubmit env options (Some c) response = (o2, aevs)"
        by (cases "afterSubmit env options (Some c) response")
      from afterSubmit_discipline [OF r] r assms g ge Inr \<open>g = Inr gasLimit\<close> show ?thesis
        by (auto simp: methodBranch_def toast_discipline_def split: outcome.splits)
    qed
  qed
qed

lemma rawBranch_discipline:
  assumes "rawBranch env options sg a contract heap = (out, evs, heap')"
  shows "toast_discipline (env_toastId env) out evs"
proof (cases "heap a")
  case None
  obtain o2 hevs where r: "returnNullAfter (handleError TypeError_undefined_tx
      (errorOptions env options contract None GasEstimate)) = (o2, hevs)"
    by (cases "returnNullAfter (handleError TypeError_undefined_tx
      (errorOptions env options contract None GasEstimate))")
  from returnNullAfter_discipline [OF r] r assms None show ?thesis
    by (auto simp: rawBranch_def)
next
  case (Some tx)
  obtain g gevs where g: "getRawTxGasLimit (env_config env) (env_provider env) tx = (g, gevs)"
    by (cases "getRawTxGasLimit (env_config env) (env_provider env) tx")
  from getRawTxGasLimit_events [of "env_config env" "env_provider env" tx] g
  have ge: "created_count gevs = 0 \<and> terminal_count gevs = 0 \<and> on_toast (env_toastId env) gevs"
    by auto
  show ?thesis
  proof (cases g)
    case (Inl rawError)
    obtain o2 hevs where r: "returnNullAfter (handleError rawError
        (errorOptions env options contract None GasEstimate)) = (o2, hevs)"
      by (cases "returnNullAfter (handleError rawError (errorOptions env options contract None GasEstimate))")
    from returnNullAfter_discipline [OF r] r assms Some g ge Inl show ?thesis
      by (auto simp: rawBranch_def toast_discipline_def split: outcome.splits)
  next
    case (Inr gasLimit)
    show ?thesis
    proof (cases "sendTransaction sg (tx\<lparr>tx_gasLimit := Some gasLimit\<rparr>)")
      case (Inl rawError)
      obtain o2 hevs where r: "returnNullAfter (handleError rawError
          (errorOptions env options contract None Wallet)) = (o2, hevs)"
        by (cases "returnNullAfter (handleError rawError (errorOptions env options contract None Wallet))")
      from returnNullAfter_discipline [OF r] r assms Some g ge Inl \<open>g = Inr gasLimit\<close> show ?thesis
        by (auto simp: rawBranch_def Let_def toast_discipline_def split: outcome.splits)
    next
      case (Inr response)
      obtain o2 aevs where r: "afterSubmit env options contract response = (o2, aevs)"
        by (cases "afterSubmit env options contract response")
      from afterSubmit_discipline [OF r] r assms Some g ge Inr \<open>g = Inr gasLimit\<close> show ?thesis
        by (auto simp: rawBranch_def Let_def toast_discipline_def split: outcome.splits)
    qed
  qed
qed

text \<open>
  Claim C5, as amended. In every invocation with a signer and an account, exactly one
  notification is created, first of all, and every operation on a notification is on
  that one. When the invocation returns (a receipt or \<open>null\<close>), the notification has
  been closed or updated to a final state (success, error or warning) exactly once.
\<close>

theorem one_toast_and_one_terminal_update_on_return:
  assumes "env_signer env = Some sg" and "env_account env = Some acct" and "acct \<noteq> []"
    and "useTransaction env txInputs options heap = (out, evs, heap')"
  shows "hd evs = CreatePendingToast (env_toastId env)
       \<and> created_count evs = 1
       \<and> on_toast (env_toastId env) evs
       \<and> (\<forall>r. out = Returned r \<longrightarrow> terminal_count evs = 1)"
proof (cases txInputs)
  case (Populated a)
  obtain o2 evs2 h2 where r: "rawBranch env options sg a None heap = (o2, evs2, h2)"
    by (cases "rawBranch env options sg a None heap")
  from rawBranch_discipline [OF r] r assms Populated show ?thesis
    by (auto simp: useTransaction_def toast_discipline_def)
next
  case (WithTx a c)
  obtain o2 evs2 h2 where r: "rawBranch env options sg a c heap = (o2, evs2, h2)"
    by (cases "rawBranch env options sg a c heap")
  from rawBranch_discipline [OF r] r assms WithTx show ?thesis
    by (auto simp: useTransaction_def toast_discipline_def)
next
  case (MethodCall c m ps gl)
  obtain o2 evs2 where r: "methodBranch env options c m ps gl = (o2, evs2)"
    by (cases "methodBranch env options c m ps gl")
  from methodBranch_discipline [OF r] r assms MethodCall show ?thesis
    by (auto simp: useTransaction_def toast_discipline_def)
qed


lemma example_env_wallet:
  "env_signer (example_env prov sg) = Some sg"
  "env_account (example_env prov sg) = Some ''0xuser''"
  "env_toastId (example_env prov sg) = ''toast-1''"
  "env_config (example_env prov sg) = example_config"
  "env_provider (example_env prov sg) = prov"
  by (simp_all add: example_env_def)

theorem one_toast_and_one_terminal_update_on_return_witness:
  "fst (useTransaction (example_env (example_provider 100000) example_signer) (Populated 0)
          \<lparr>onComplete = None, onError = None\<rparr> example_heap)
     = Returned (Some (example_receipt ''0xabc''))
   \<and> created_count
        (fst (snd (useTransaction (example_env (example_provider 100000) example_signer)
                     (Populated 0) \<lparr>onComplete = None, onError = None\<rparr> example_heap))) = 1
   \<and> terminal_count
        (fst (snd (useTransaction (example_env (example_provider 100000) example_signer)
                     (Populated 0) \<lparr>onComplete = None, onError = None\<rparr> example_heap))) = 1"
proof -
  let ?u = "useTransaction (example_env (example_provider 100000) example_signer) (Populated 0)
              \<lparr>onComplete = None, onError = None\<rparr> example_heap"
  have r: "fst ?u = Returned (Some (example_receipt ''0xabc''))"
    by code_simp
  have ne: "''0xuser'' \<noteq> []"
    by simp
  have u: "?u = (fst ?u, fst (snd ?u), snd (snd ?u))"
    by simp
  from one_toast_and_one_terminal_update_on_return
         [OF example_env_wallet(1) example_env_wallet(2) ne u] r
  show ?thesis
    by simp
qed

text \<open>
  Claim C5 as stated fails: when the completion callback of the caller throws, the
  invocation ends (it throws) with the notification created and set to pending, and
  neither closed nor updated to a final state.
\<close>

theorem throwing_callback_leaves_toast_pending_counterexample:
  "fst (useTransaction (example_env (example_provider 100000) example_signer) (Populated 0)
          \<lparr>onComplete = Some throwing_callback, onError = None\<rparr> example_heap)
     = Thrown (JStr ''callback failed'')
   \<and> fst (snd (useTransaction (example_env (example_provider 100000) example_signer)
                 (Populated 0) \<lparr>onComplete = Some throwing_callback, onError = None\<rparr>
                 example_heap))
       = [CreatePendingToast ''toast-1'', EstimateGas example_tx,
          SendTransaction (example_tx\<lparr>tx_gasLimit := Some 150000\<rparr>),
          UpdatePendingToast ''toast-1'' 10250, GetTransactionReceipt ''0xabc'',
          OnCompleteCall (example_receipt ''0xabc'')]
   \<and> terminal_count
        (fst (snd (useTransaction (example_env (example_provider 100000) example_signer)
                     (Populated 0) \<lparr>onComplete = Some throwing_callback, onError = None\<rparr>
                     example_heap))) = 0"
  by code_simp

subsection \<open>The transaction object of the caller\<close>

lemma handleError_no_send: "SendTransaction t \<notin> set (snd (handleError rawError opts))"
  by (auto simp: handleError_def Let_def split: sum.splits option.splits)

lemma returnNullAfter_no_send:
  "SendTransaction t \<notin> set (snd (returnNullAfter (handleError rawError opts)))"
  using handleError_no_send [of t rawError opts]
  by (cases "handleError rawError opts") (auto simp: returnNullAfter_def split: sum.splits)


lemma afterSubmit_no_send: "SendTransaction t \<notin> set (snd (afterSubmit env options contract response))"
proof -
  obtain pr pevs where p: "pollReceipt (prov_getTransactionReceipt (env_provider env) (hash response))
      (hash response) 0 0 = (pr, pevs)"
    by (cases "pollReceipt (prov_getTransactionReceipt (env_provider env) (hash response))
      (hash response) 0 0")
  from poll_events [of "prov_getTransactionReceipt (env_provider env) (hash response)" "hash response" 0 0] p
  obtain k where k: "pevs = replicate (Suc k) (GetTransactionReceipt (hash response))" by auto
  show ?thesis
  proof (cases pr)
    case (Unsettled e)
    with p k show ?thesis
      by (simp add: afterSubmit_def Let_def)
  next
    case (Resolved ro)
    show ?thesis
    proof (cases ro)
      case None
      with p k Resolved show ?thesis
        by (simp add: afterSubmit_def Let_def)
    next
      case (Some receipt)
      show ?thesis
      proof (cases "status receipt = Some 0")
        case True
        obtain o2 hevs where r: "returnNullAfter (handleError Error_reverted
                          (errorOptions env options contract (Some receipt) Reverted)) = (o2, hevs)"
          by (cases "returnNullAfter (handleError Error_reverted
                          (errorOptions env options contract (Some receipt) Reverted))")
        from returnNullAfter_no_send [of t Error_reverted
               "errorOptions env options contract (Some receipt) Reverted"] r
        have "SendTransaction t \<notin> set hevs" by simp
        with r p k Resolved Some True show ?thesis
          by (simp add: afterSubmit_def Let_def)
      next
        case False
        with p k Resolved Some show ?thesis
          by (simp add: afterSubmit_def Let_def split: option.splits)
      qed
    qed
  qed
qed

lemma rawBranch_assigns_gasLimit:
  assumes "heap a = Some tx"
    and "fst (getRawTxGasLimit (env_config env) (env_provider env) tx) = Inr g"
    and "rawBranch env options sg a contract heap = (out, evs, heap')"
  shows "heap' = heap(a \<mapsto> tx\<lparr>tx_gasLimit := Some g\<rparr>)
       \<and> SendTransaction (tx\<lparr>tx_gasLimit := Some g\<rparr>) \<in> set evs
       \<and> (\<forall>t. SendTransaction t \<in> set evs \<longrightarrow> t = tx\<lparr>tx_gasLimit := Some g\<rparr>)"
proof -
  obtain gevs where g: "getRawTxGasLimit (env_config env) (env_provider env) tx = (Inr g, gevs)"
    using assms(2) by (cases "getRawTxGasLimit (env_config env) (env_provider env) tx") auto
  from getRawTxGasLimit_events [of "env_config env" "env_provider env" tx] g
  have ge: "\<forall>t. SendTransaction t \<notin> set gevs" by auto
  show ?thesis
  proof (cases "sendTransaction sg (tx\<lparr>tx_gasLimit := Some g\<rparr>)")
    case (Inl rawError)
    with assms(1,3) g ge
      returnNullAfter_no_send [of _ rawError "errorOptions env options contract None Wallet"]
    show ?thesis
      by (auto simp: rawBranch_def Let_def split: prod.splits)
  next
    case (Inr response)
    with assms(1,3) g ge afterSubmit_no_send [of _ env options contract response]
    show ?thesis
      by (auto simp: rawBranch_def Let_def split: prod.splits)
  qed
qed

text \<open>
  Claim C10. On the path of a raw transaction (a request without a method), once the gas
  limit is computed, it is assigned to the \<open>gasLimit\<close> field of the caller's own
  transaction object: whatever the outcome of the invocation, the store afterwards holds
  that object with the computed limit, and it is this object, with the limit, that was
  submitted.
\<close>

theorem raw_path_assigns_gas_limit_in_place:
  assumes "env_signer env = Some sg" and "env_account env = Some acct" and "acct \<noteq> []"
    and "txInputs = Populated a \<or> txInputs = WithTx a c"
    and "heap a = Some tx"
    and "fst (getRawTxGasLimit (env_config env) (env_provider env) tx) = Inr g"
    and "useTransaction env txInputs options heap = (out, evs, heap')"
  shows "heap' = heap(a \<mapsto> tx\<lparr>tx_gasLimit := Some g\<rparr>)
       \<and> SendTransaction (tx\<lparr>tx_gasLimit := Some g\<rparr>) \<in> set evs
       \<and> (\<forall>t. SendTransaction t \<in> set evs \<longrightarrow> t = tx\<lparr>tx_gasLimit := Some g\<rparr>)"
proof -
  from assms(4) obtain c2 where
    u: "useTransaction env txInputs options heap =
          (case rawBranch env options sg a c2 heap of
             (out, evs, heap') \<Rightarrow> (out, CreatePendingToast (env_toastId env) # evs, heap'))"
    using assms(1-3) by (auto simp: useTransaction_def)
  obtain o2 evs2 h2 where r: "rawBranch env options sg a c2 heap = (o2, evs2, h2)"
    by (cases "rawBranch env options sg a c2 heap")
  from rawBranch_assigns_gasLimit [OF assms(5,6) r] u r assms(7) show ?thesis
    by auto
qed

lemma example_gas:
  "fst (getRawTxGasLimit example_config (example_provider 100000) example_tx) = Inr 150000"
  "fst (getRawTxGasLimit example_config never_provider example_tx) = Inr 150000"
  by code_simp+

theorem raw_path_assigns_gas_limit_in_place_witness:
  "fst (useTransaction (example_env (example_provider 100000) rejecting_signer) (WithTx 0 None)
          \<lparr>onComplete = None, onError = None\<rparr> example_heap) = Returned None
   \<and> snd (snd (useTransaction (example_env (example_provider 100000) rejecting_signer)
                 (WithTx 0 None) \<lparr>onComplete = None, onError = None\<rparr> example_heap))
       = example_heap(0 \<mapsto> example_tx\<lparr>tx_gasLimit := Some 150000\<rparr>)
   \<and> fst (useTransaction (example_env never_provider example_signer) (Populated 0)
            \<lparr>onComplete = None, onError = None\<rparr> example_heap) = Returned None
   \<and> snd (snd (useTransaction (example_env never_provider example_signer) (Populated 0)
                 \<lparr>onComplete = None, onError = None\<rparr> example_heap))
       = example_heap(0 \<mapsto> example_tx\<lparr>tx_gasLimit := Some 150000\<rparr>)"
proof -
  let ?u = "useTransaction (example_env (example_provider 100000) rejecting_signer)
              (WithTx 0 None) \<lparr>onComplete = None, onError = None\<rparr> example_heap"
  let ?v = "useTransaction (example_env never_provider example_signer) (Populated 0)
              \<lparr>onComplete = None, onError = None\<rparr> example_heap"
  have ru: "fst ?u = Returned None" and rv: "fst ?v = Returned None"
    by code_simp+
  have ne: "''0xuser'' \<noteq> []"
    by simp
  have h: "example_heap 0 = Some example_tx"
    by (simp add: example_heap_def)
  have gu: "fst (getRawTxGasLimit (env_config (example_env (example_provider 100000)
                   rejecting_signer))
                 (env_provider (example_env (example_provider 100000) rejecting_signer))
                 example_tx) = Inr 150000"
    and gv: "fst (getRawTxGasLimit (env_config (example_env never_provider example_signer))
                 (env_provider (example_env never_provider example_signer)) example_tx)
               = Inr 150000"
    by (simp_all add: example_env_wallet example_gas)
  have u: "?u = (fst ?u, fst (snd ?u), snd (snd ?u))" and v: "?v = (fst ?v, fst (snd ?v), snd (snd ?v))"
    by simp_all
  have su: "WithTx 0 None = Populated 0 \<or> WithTx 0 None = WithTx 0 None"
    and sv: "Populated 0 = Populated 0 \<or> Populated 0 = WithTx 0 None"
    by simp_all
  from raw_path_assigns_gas_limit_in_place
         [OF example_env_wallet(1) example_env_wallet(2) ne su h gu u]
       raw_path_assigns_gas_limit_in_place
         [OF example_env_wallet(1) example_env_wallet(2) ne sv h gv v]
       ru rv
  show ?thesis
    by simp
qed

subsection \<open>Silent failures\<close>

lemma errorReasonMessage_falsy:
  "(errorReasonMessage err opts = None \<or> errorReasonMessage err opts = Some [])
     \<longleftrightarrow> err_reason err = Some UserDenied"
  by (cases "err_reason err")
     (auto simp: errorReasonMessage_def formatErrorReason_def split: TransactionErrorReason.splits)

lemma handleError_silent:
  assumes "extractError rawError (map_option c_parseError (o_contract opts)) = Inr err"
    and "errorReasonMessage err opts = None"
  shows "handleError rawError opts = (Inr (), [CloseToast (o_toastId opts)])"
  using assms by (simp add: handleError_def)

lemma returnNull_silent:
  assumes "extractError rawError (map_option c_parseError contract) = Inr err"
    and "err_reason err = Some UserDenied"
  shows "returnNullAfter (handleError rawError (errorOptions env options contract receipt stage))
           = (Returned None, [CloseToast (env_toastId env)])"
proof -
  have "errorReasonMessage err (errorOptions env options contract receipt stage) = None"
    using assms(2) by (simp add: errorReasonMessage_def formatErrorReason_def)
  moreover have "o_contract (errorOptions env options contract receipt stage) = contract"
    by (simp add: errorOptions_def)
  ultimately show ?thesis
    using handleError_silent [of rawError "errorOptions env options contract receipt stage" err] assms(1)
    by (simp add: returnNullAfter_def)
qed

text \<open>
  Claim C2, as amended. A failure whose classification yields no display message is a
  failure classified UserDenied. For such a failure the reporting procedure closes the
  notification and does nothing else: no error report, no update of the notification, and
  no call of the caller's error handler. At each of the four places where estimation or
  submission can fail, the entry point then returns \<open>null\<close>.
\<close>

theorem silent_failure_closes_toast_only:
  assumes "extractError rawError (map_option c_parseError contract) = Inr err"
    and "errorReasonMessage err (errorOptions env options contract receipt stage) = None"
    and "env_signer env = Some sg" and "env_account env = Some acct" and "acct \<noteq> []"
    and "tid = env_toastId env"
  shows "err_reason err = Some UserDenied
    \<and> handleError rawError (errorOptions env options contract receipt stage)
         = (Inr (), [CloseToast tid])
    \<and> (\<forall>c gevs. contract = Some c
          \<and> getContractTxGasLimit (env_config env) c method params gl = (Inl rawError, gevs)
        \<longrightarrow> useTransaction env (MethodCall c method params gl) options heap
              = (Returned None, CreatePendingToast tid # gevs @ [CloseToast tid], heap))
    \<and> (\<forall>c g gevs. contract = Some c
          \<and> getContractTxGasLimit (env_config env) c method params gl = (Inr g, gevs)
          \<and> c_call c method params g = Inl rawError
        \<longrightarrow> useTransaction env (MethodCall c method params gl) options heap
              = (Returned None,
                 CreatePendingToast tid # gevs @ [ContractCall method params g, CloseToast tid],
                 heap))
    \<and> (\<forall>tx gevs. (txInputs = WithTx a contract \<or> txInputs = Populated a \<and> contract = None)
          \<and> heap a = Some tx
          \<and> getRawTxGasLimit (env_config env) (env_provider env) tx = (Inl rawError, gevs)
        \<longrightarrow> useTransaction env txInputs options heap
              = (Returned None, CreatePendingToast tid # gevs @ [CloseToast tid], heap))
    \<and> (\<forall>tx g gevs. (txInputs = WithTx a contract \<or> txInputs = Populated a \<and> contract = None)
          \<and> heap a = Some tx
          \<and> getRawTxGasLimit (env_config env) (env_provider env) tx = (Inr g, gevs)
          \<and> sendTransaction sg (tx\<lparr>tx_gasLimit := Some g\<rparr>) = Inl rawError
        \<longrightarrow> useTransaction env txInputs options heap
              = (Returned None,
                 CreatePendingToast tid # gevs
                   @ [SendTransaction (tx\<lparr>tx_gasLimit := Some g\<rparr>), CloseToast tid],
                 heap(a \<mapsto> tx\<lparr>tx_gasLimit := Some g\<rparr>)))"
proof -
  have d: "err_reason err = Some UserDenied"
    using assms(2)
      errorReasonMessage_falsy [of err "errorOptions env options contract receipt stage"]
    by simp
  have silent: "returnNullAfter (handleError rawError (errorOptions env options contract r s))
                  = (Returned None, [CloseToast tid])" for r s
    using returnNull_silent [OF assms(1) d, of env options r s] assms(6) by simp
  have h: "handleError rawError (errorOptions env options contract receipt stage)
             = (Inr (), [CloseToast tid])"
    using handleError_silent [of rawError "errorOptions env options contract receipt stage" err]
      assms(1,2,6)
    by (simp add: errorOptions_def)
  have m1: "useTransaction env (MethodCall c method params gl) options heap
              = (Returned None, CreatePendingToast tid # gevs @ [CloseToast tid], heap)"
    if "contract = Some c"
      and "getContractTxGasLimit (env_config env) c method params gl = (Inl rawError, gevs)"
    for c gevs
    using that silent [of None GasEstimate] assms(3-6)
    by (simp add: useTransaction_def methodBranch_def)
  have m2: "useTransaction env (MethodCall c method params gl) options heap
              = (Returned None,
                 CreatePendingToast tid # gevs @ [ContractCall method params g, CloseToast tid],
                 heap)"
    if "contract = Some c"
      and "getContractTxGasLimit (env_config env) c method params gl = (Inr g, gevs)"
      and "c_call c method params g = Inl rawError"
    for c g gevs
    using that silent [of None Wallet] assms(3-6)
    by (simp add: useTransaction_def methodBranch_def)
  have r1: "useTransaction env txInputs options heap
              = (Returned None, CreatePendingToast tid # gevs @ [CloseToast tid], heap)"
    if "txInputs = WithTx a contract \<or> txInputs = Populated a \<and> contract = None"
      and "heap a = Some tx"
      and "getRawTxGasLimit (env_config env) (env_provider env) tx = (Inl rawError, gevs)"
    for tx gevs
    using that silent [of None GasEstimate] assms(3-6)
    by (auto simp: useTransaction_def rawBranch_def)
  have r2: "useTransaction env txInputs options heap
              = (Returned None,
                 CreatePendingToast tid # gevs
                   @ [SendTransaction (tx\<lparr>tx_gasLimit := Some g\<rparr>), CloseToast tid],
                 heap(a \<mapsto> tx\<lparr>tx_gasLimit := Some g\<rparr>))"
    if "txInputs = WithTx a contract \<or> txInputs = Populated a \<and> contract = None"
      and "heap a = Some tx"
      and "getRawTxGasLimit (env_config env) (env_provider env) tx = (Inr g, gevs)"
      and "sendTransaction sg (tx\<lparr>tx_gasLimit := Some g\<rparr>) = Inl rawError"
    for tx g gevs
    using that silent [of None Wallet] assms(3-6)
    by (auto simp: useTransaction_def rawBranch_def Let_def)
  from d h m1 m2 r1 r2 show ?thesis
    by blast
qed

lemma user_denied_classified:
  "extractError user_denied (map_option c_parseError (Some denying_contract))
     = Inr \<lparr>err_code = JNum 4001,
            err_message =
              JStr ''MetaMask Tx Signature: User denied transaction signature.'',
            err_data = JUndefined, err_description = None,
            err_reason = Some UserDenied\<rparr>"
  by (simp add: denying_contract_def user_denied_def extractError_def unwrap_error_def
        coalesce_def error_data_def decode_error_def TX_ERROR_PATTERNS_def match_pattern_def
        matchMessage_def matchCode_def matchName_def name_pattern_def msg_pattern_def
        str_includes_def toLowerCase_def toLowerChar_def sublist_code)

theorem silent_failure_closes_toast_only_witness:
  "c_estimateGas denying_contract ''swap'' [] = Inl user_denied
   \<and> onError \<lparr>onComplete = None, onError = Some silent_handler\<rparr> = Some silent_handler
   \<and> handleError user_denied
        (errorOptions (example_env (example_provider 100000) example_signer)
           \<lparr>onComplete = None, onError = Some silent_handler\<rparr> (Some denying_contract) None
           GasEstimate)
       = (Inr (), [CloseToast ''toast-1''])
   \<and> useTransaction (example_env (example_provider 100000) example_signer)
        (MethodCall denying_contract ''swap'' [] None)
        \<lparr>onComplete = None, onError = Some silent_handler\<rparr> example_heap
       = (Returned None,
          [CreatePendingToast ''toast-1'', ContractEstimateGas ''swap'' [],
           CloseToast ''toast-1''],
          example_heap)
   \<and> report_count
        [CreatePendingToast ''toast-1'', ContractEstimateGas ''swap'' [],
         CloseToast ''toast-1''] = 0
   \<and> handler_count
        [CreatePendingToast ''toast-1'', ContractEstimateGas ''swap'' [],
         CloseToast ''toast-1''] = 0"
proof -
  let ?env = "example_env (example_provider 100000) example_signer"
  let ?options = "\<lparr>onComplete = None, onError = Some silent_handler\<rparr>"
  have m: "errorReasonMessage
             \<lparr>err_code = JNum 4001,
                err_message =
                  JStr ''MetaMask Tx Signature: User denied transaction signature.'',
                err_data = JUndefined, err_description = None,
                err_reason = Some UserDenied\<rparr>
             (errorOptions ?env ?options (Some denying_contract) None GasEstimate) = None"
    by (simp add: errorReasonMessage_def formatErrorReason_def)
  have ne: "''0xuser'' \<noteq> []"
    by simp
  have g: "getContractTxGasLimit (env_config ?env) denying_contract ''swap'' [] None
             = (Inl user_denied, [ContractEstimateGas ''swap'' []])"
    by (simp add: getContractTxGasLimit_def denying_contract_def)
  have e: "c_estimateGas denying_contract ''swap'' [] = Inl user_denied"
    by (simp add: denying_contract_def)
  from silent_failure_closes_toast_only
         [OF user_denied_classified m example_env_wallet(1) example_env_wallet(2) ne
             example_env_wallet(3) [symmetric],
          of "''swap''" "[]" None example_heap]
       g e
  show ?thesis
    by (simp add: report_count_def handler_count_def)
qed

text \<open>
  Claim C2 as stated fails: the estimation of a contract call is denied by the user, the
  caller has supplied an error handler, and the handler is not called: the notification
  is closed and the entry point returns \<open>null\<close>.
\<close>

theorem denied_failure_skips_handler_counterexample:
  "onError \<lparr>onComplete = None, onError = Some silent_handler\<rparr> = Some silent_handler
   \<and> fst (useTransaction (example_env (example_provider 100000) example_signer)
            (MethodCall denying_contract ''swap'' [] None)
            \<lparr>onComplete = None, onError = Some silent_handler\<rparr> example_heap)
       = Returned None
   \<and> fst (snd (useTransaction (example_env (example_provider 100000) example_signer)
                 (MethodCall denying_contract ''swap'' [] None)
                 \<lparr>onComplete = None, onError = Some silent_handler\<rparr> example_heap))
       = [CreatePendingToast ''toast-1'', ContractEstimateGas ''swap'' [],
          CloseToast ''toast-1'']
   \<and> handler_count
        (fst (snd (useTransaction (example_env (example_provider 100000) example_signer)
                     (MethodCall denying_contract ''swap'' [] None)
                     \<lparr>onComplete = None, onError = Some silent_handler\<rparr> example_heap)))
       \<noteq> 1"
proof -
  have handler: "onError \<lparr>onComplete = None, onError = Some silent_handler\<rparr>
                   = Some silent_handler"
    by simp
  have run: "fst (useTransaction (example_env (example_provider 100000) example_signer)
                (MethodCall denying_contract ''swap'' [] None)
                \<lparr>onComplete = None, onError = Some silent_handler\<rparr> example_heap)
           = Returned None
       \<and> fst (snd (useTransaction (example_env (example_provider 100000) example_signer)
                     (MethodCall denying_contract ''swap'' [] None)
                     \<lparr>onComplete = None, onError = Some silent_handler\<rparr> example_heap))
           = [CreatePendingToast ''toast-1'', ContractEstimateGas ''swap'' [],
              CloseToast ''toast-1'']
       \<and> handler_count
            (fst (snd (useTransaction (example_env (example_provider 100000) example_signer)
                         (MethodCall denying_contract ''swap'' [] None)
                         \<lparr>onComplete = None, onError = Some silent_handler\<rparr> example_heap)))
           \<noteq> 1"
    by code_simp
  from handler run show ?thesis
    by (rule conjI)
qed

subsection \<open>A receipt lookup that fails\<close>

lemma lookup_failure_never_settles:
  assumes "\<forall>j<k. prov_getTransactionReceipt (env_provider env) (hash response) j = Inr None"
    and "prov_getTransactionReceipt (env_provider env) (hash response) k = Inl e"
    and "k \<le> 100"
  shows "afterSubmit env options contract response
           = (NeverSettles,
              UpdatePendingToast (env_toastId env) (getTimeout (env_network env) + POLL_INTERVAL)
                # replicate (Suc k) (GetTransactionReceipt (hash response)))"
  using poll_failed [of k "prov_getTransactionReceipt (env_provider env) (hash response)" 0 e 0
                        "hash response"] assms
  by (simp add: afterSubmit_def Let_def)

text \<open>
  Claim C4, at the input where it fails. A raw transaction is estimated and submitted, and
  the first lookup of its receipt fails with a network error. Nothing catches that
  failure: it is never classified (no error report, no update or closing of the
  notification, no call of the error handler), and the invocation neither returns nor
  throws; the notification stays pending.
\<close>

theorem receipt_lookup_failure_never_settles:
  "prov_getTransactionReceipt failing_provider ''0xabc'' 0 = Inl network_error
   \<and> fst (useTransaction (example_env failing_provider example_signer) (Populated 0)
            \<lparr>onComplete = None, onError = Some silent_handler\<rparr> example_heap)
       = NeverSettles
   \<and> fst (snd (useTransaction (example_env failing_provider example_signer) (Populated 0)
                 \<lparr>onComplete = None, onError = Some silent_handler\<rparr> example_heap))
       = [CreatePendingToast ''toast-1'', EstimateGas example_tx,
          SendTransaction (example_tx\<lparr>tx_gasLimit := Some 150000\<rparr>),
          UpdatePendingToast ''toast-1'' 10250, GetTransactionReceipt ''0xabc'']"
  by code_simp

end
